theory Spec2Isabelle
  imports Main
begin

section \<open>The expense service (src/app/services/expense.service.ts)\<close>

text \<open>
  The service keeps an array of expense objects in memory and sequences calls to four
  collaborators: the record store (StorageService), the file system (Filesystem), the
  platform (Capacitor) and the camera (Camera).  None of the collaborators is part of the
  source file, so each of them is a parameter of the model: a field of the record
  \<open>env\<close>.  A collaborator call reads and changes an opaque world \<open>'w\<close> and may
  reject; the service records every call, with its arguments and its reply, in a trace.
\<close>

subsection \<open>JavaScript values\<close>

text \<open>
  The fields of a photo hold a string, \<open>null\<close> or \<open>undefined\<close>.  \<open>truthy\<close> is the
  test that \<open>if (v)\<close> performs on such a value: only a non-empty string passes.
\<close>

datatype jsval = Undefined | Null | Str string

fun truthy :: "jsval \<Rightarrow> bool" where
  "truthy (Str s) = (s \<noteq> [])"
| "truthy Undefined = False"
| "truthy Null = False"

text \<open>
  Identifiers are JavaScript numbers that hold integers (timestamps in milliseconds);
  they are modelled as \<open>int\<close>, and an absent identifier (\<open>undefined\<close>) as \<open>None\<close>.
  \<open>show_int\<close> is the decimal text that \<open>expenseId + '.jpeg'\<close> puts in front of the
  extension.
\<close>

definition digit :: "nat \<Rightarrow> char" where
  "digit d = ''0123456789'' ! (d mod 10)"

fun show_nat :: "nat \<Rightarrow> string" where
  "show_nat n = (if n < 10 then [digit n] else show_nat (n div 10) @ [digit (n mod 10)])"

declare show_nat.simps [simp del]

definition show_int :: "int \<Rightarrow> string" where
  "show_int i = (if i < 0 then CHR ''-'' # show_nat (nat (- i)) else show_nat (nat i))"

subsection \<open>Photos and expenses (models/photo.ts, models/expense.ts)\<close>

text \<open>
  Modelled from the spec: the declarations of \<open>Expense\<close> and \<open>Photo\<close>
  (models/expense.ts, models/photo.ts) are not among the sources.  An expense has an
  identifier, descriptive fields and an embedded receipt; a receipt has a temporary
  capture reference (\<open>tempPath\<close>), a persisted reference (\<open>filePath\<close>) and a display
  reference (\<open>webviewPath\<close>), and the service also keeps the file name (\<open>name\<close>) in it.
  The service reads and writes the identifier and the receipt only, so the descriptive
  fields are left out.  Every expense object owns its receipt object.
\<close>

record photo =
  name :: jsval
  filePath :: jsval
  tempPath :: jsval
  webviewPath :: jsval

record expense =
  expense_id :: "int option"
  receipt :: photo

subsection \<open>Collaborators\<close>

datatype error = Rejected string

type_synonym 'a reply = "error + 'a"

type_synonym ref = nat

datatype directory = Data

datatype CameraResultType = Uri | Base64 | DataUrl

datatype CameraSource = Prompt | Camera | Photos

record camera_options =
  resultType :: CameraResultType
  source :: CameraSource
  quality :: nat

datatype safe_url = SafeUrl jsval

type_synonym response = string

type_synonym blob = string

datatype event =
    StorageInit "unit reply"
  | ReadExpenses "ref list reply"
  | CreateExpense expense "expense list" "unit reply"
  | UpdateExpense expense "expense list" "unit reply"
  | DeleteExpense expense "expense list" "unit reply"
  | ReadFile jsval "directory option" "string reply"
  | WriteFile jsval string "directory option" "string reply"
  | DeleteFile jsval "directory option" "unit reply"
  | Fetch jsval "response reply"
  | ResponseBlob response "blob reply"
  | ReadAsDataURL blob "string reply"
  | GetTime int
  | GetPhoto camera_options "(jsval \<times> jsval) reply"

text \<open>
  The platform does not change while the application runs, so \<open>getPlatform\<close>,
  \<open>isNativePlatform\<close> and \<open>convertFileSrc\<close> do not depend on the world.  The store hands
  out and receives expense objects: \<open>readExpenses\<close> returns references to objects of the
  heap, the three writing calls are given the contents of the expense and of the array.
  \<open>getPhoto\<close> returns the pair of \<open>path\<close> and \<open>webPath\<close> of the photo taken.
  \<open>fetch\<close>, \<open>response_blob\<close> and \<open>readAsDataURL\<close> are the browser's \<open>fetch\<close>, the
  \<open>blob()\<close> of its response and the \<open>FileReader\<close>; \<open>getTime\<close> is the clock behind
  \<open>new Date().getTime()\<close>, which cannot reject.
\<close>

record 'w env =
  getPlatform :: string
  isNativePlatform :: bool
  convertFileSrc :: "jsval \<Rightarrow> jsval"
  getTime :: "'w \<Rightarrow> int \<times> 'w"
  storage_init :: "'w \<Rightarrow> unit reply \<times> 'w"
  readExpenses :: "'w \<Rightarrow> ref list reply \<times> 'w"
  createExpense :: "expense \<Rightarrow> expense list \<Rightarrow> 'w \<Rightarrow> unit reply \<times> 'w"
  updateExpense :: "expense \<Rightarrow> expense list \<Rightarrow> 'w \<Rightarrow> unit reply \<times> 'w"
  deleteExpense :: "expense \<Rightarrow> expense list \<Rightarrow> 'w \<Rightarrow> unit reply \<times> 'w"
  readFile :: "jsval \<Rightarrow> directory option \<Rightarrow> 'w \<Rightarrow> string reply \<times> 'w"
  writeFile :: "jsval \<Rightarrow> string \<Rightarrow> directory option \<Rightarrow> 'w \<Rightarrow> string reply \<times> 'w"
  deleteFile :: "jsval \<Rightarrow> directory option \<Rightarrow> 'w \<Rightarrow> unit reply \<times> 'w"
  fetch :: "jsval \<Rightarrow> 'w \<Rightarrow> response reply \<times> 'w"
  response_blob :: "response \<Rightarrow> 'w \<Rightarrow> blob reply \<times> 'w"
  readAsDataURL :: "blob \<Rightarrow> 'w \<Rightarrow> string reply \<times> 'w"
  getPhoto :: "camera_options \<Rightarrow> 'w \<Rightarrow> (jsval \<times> jsval) reply \<times> 'w"
  bypassSecurityTrustUrl :: "jsval \<Rightarrow> safe_url"

subsection \<open>State and asynchronous actions\<close>

text \<open>
  \<open>heap\<close> holds the expense objects, \<open>expenses\<close> is the private array of the service: a
  list of references, so that an object changed through one reference is changed for
  every holder.  An action is an \<open>async\<close> function body: it returns the new state
  together with \<open>Inr\<close> of its value, or \<open>Inl\<close> of the rejection.  \<open>await\<close> passes a
  rejection on unchanged and keeps the state reached so far.  One operation runs at a
  time: between two steps of an operation only the collaborator that is called acts, and
  it changes the world, not the heap or the array.
\<close>

record 'w state =
  heap :: "ref \<Rightarrow> expense"
  expenses :: "ref list"
  world :: 'w
  trace :: "event list"

type_synonym ('a, 'w) action = "'w state \<Rightarrow> 'a reply \<times> 'w state"

definition resolve :: "'a \<Rightarrow> ('a, 'w) action" where
  "resolve a s = (Inr a, s)"

definition await :: "('a, 'w) action \<Rightarrow> ('a \<Rightarrow> ('b, 'w) action) \<Rightarrow> ('b, 'w) action" where
  "await m k s = (case m s of (Inl e, s') \<Rightarrow> (Inl e, s') | (Inr a, s') \<Rightarrow> k a s')"

definition get :: "('w state \<Rightarrow> 'a) \<Rightarrow> ('a, 'w) action" where
  "get f s = (Inr (f s), s)"

definition modify :: "('w state \<Rightarrow> 'w state) \<Rightarrow> (unit, 'w) action" where
  "modify f s = (Inr (), f s)"

definition perform :: "('w \<Rightarrow> 'a reply \<times> 'w) \<Rightarrow> ('a reply \<Rightarrow> event) \<Rightarrow> ('a, 'w) action" where
  "perform f ev s =
     (case f (world s) of (r, w') \<Rightarrow> (r, s\<lparr>world := w', trace := trace s @ [ev r]\<rparr>))"

definition assign_receipt :: "ref \<Rightarrow> (photo \<Rightarrow> photo) \<Rightarrow> 'w state \<Rightarrow> 'w state" where
  "assign_receipt r f s = s\<lparr>heap := (heap s)(r := (heap s r)\<lparr>receipt := f (receipt (heap s r))\<rparr>)\<rparr>"

definition assign_id :: "ref \<Rightarrow> int \<Rightarrow> 'w state \<Rightarrow> 'w state" where
  "assign_id r n s = s\<lparr>heap := (heap s)(r := (heap s r)\<lparr>expense_id := Some n\<rparr>)\<rparr>"

definition store_call ::
  "(expense \<Rightarrow> expense list \<Rightarrow> 'w \<Rightarrow> unit reply \<times> 'w) \<Rightarrow>
   (expense \<Rightarrow> expense list \<Rightarrow> unit reply \<Rightarrow> event) \<Rightarrow> ref \<Rightarrow> (unit, 'w) action" where
  "store_call f ev expense s =
     perform (f (heap s expense) (map (heap s) (expenses s)))
             (ev (heap s expense) (map (heap s) (expenses s))) s"

subsection \<open>The operations\<close>

text \<open>\<open>loadSaved\<close>: the loop over \<open>this.expenses\<close> on the web platform.\<close>

fun load_photos :: "'w env \<Rightarrow> ref list \<Rightarrow> (unit, 'w) action" where
  "load_photos env [] = resolve ()"
| "load_photos env (expense # rest) =
     await (get (\<lambda>s. filePath (receipt (heap s expense)))) (\<lambda>fp.
     await (if truthy fp then
              await (perform (readFile env fp (Some Data)) (ReadFile fp (Some Data))) (\<lambda>data.
              modify (assign_receipt expense
                (\<lambda>r. r\<lparr>webviewPath := Str (''data:image/jpeg;base64,'' @ data)\<rparr>)))
            else resolve ()) (\<lambda>_.
     load_photos env rest))"

definition loadSaved :: "'w env \<Rightarrow> (ref list, 'w) action" where
  "loadSaved env =
     await (perform (storage_init env) StorageInit) (\<lambda>_.
     await (perform (readExpenses env) ReadExpenses) (\<lambda>loaded.
     await (modify (\<lambda>s. s\<lparr>expenses := loaded\<rparr>)) (\<lambda>_.
     await (if getPlatform env = ''web'' then
              await (get expenses) (\<lambda>es. load_photos env es)
            else resolve ()) (\<lambda>_.
     get expenses))))"

text \<open>\<open>getExpense\<close>: \<open>Array.prototype.find\<close> returns the first match, or \<open>undefined\<close>.\<close>

definition getExpense :: "int \<Rightarrow> 'w state \<Rightarrow> ref option" where
  "getExpense i s = find (\<lambda>expense. expense_id (heap s expense) = Some i) (expenses s)"

record captured =
  sanitizedReceiptImage :: safe_url
  filepath_c :: jsval

definition captureExpenseReceipt :: "'w env \<Rightarrow> (captured, 'w) action" where
  "captureExpenseReceipt env =
     (let options = \<lparr>resultType = Uri, source = Camera, quality = 100\<rparr> in
      await (perform (getPhoto env options) (GetPhoto options)) (\<lambda>imageData.
      let receiptPath = (if isNativePlatform env then fst imageData else snd imageData) in
      resolve \<lparr>sanitizedReceiptImage = bypassSecurityTrustUrl env (convertFileSrc env receiptPath),
               filepath_c = receiptPath\<rparr>))"

definition convertBlobToBase64 :: "'w env \<Rightarrow> blob \<Rightarrow> (string, 'w) action" where
  "convertBlobToBase64 env b = perform (readAsDataURL env b) (ReadAsDataURL b)"

definition readAsBase64 :: "'w env \<Rightarrow> jsval \<Rightarrow> (string, 'w) action" where
  "readAsBase64 env filepath =
     (if isNativePlatform env then
        perform (readFile env filepath None) (ReadFile filepath None)
      else
        await (perform (fetch env filepath) (Fetch filepath)) (\<lambda>response.
        await (perform (response_blob env response) (ResponseBlob response)) (\<lambda>b.
        convertBlobToBase64 env b)))"

record saved_receipt =
  filepath :: jsval
  webviewPath_r :: jsval

definition savePicture :: "'w env \<Rightarrow> photo \<Rightarrow> (saved_receipt, 'w) action" where
  "savePicture env cameraPhoto =
     await (readAsBase64 env (tempPath cameraPhoto)) (\<lambda>base64Data.
     await (perform (writeFile env (name cameraPhoto) base64Data (Some Data))
                    (WriteFile (name cameraPhoto) base64Data (Some Data))) (\<lambda>uri.
     if isNativePlatform env then
       resolve \<lparr>filepath = Str uri, webviewPath_r = convertFileSrc env (Str uri)\<rparr>
     else
       resolve \<lparr>filepath = name cameraPhoto, webviewPath_r = tempPath cameraPhoto\<rparr>))"

definition createExpenseId :: "'w env \<Rightarrow> (int, 'w) action" where
  "createExpenseId env s =
     (case getTime env (world s) of
        (t, w') \<Rightarrow> (Inr t, s\<lparr>world := w', trace := trace s @ [GetTime t]\<rparr>))"

text \<open>
  \<open>expense.id || this.createExpenseId()\<close>: the clock is read when the identifier is
  absent and also when it is \<open>0\<close>.
\<close>

definition createUpdateExpense :: "'w env \<Rightarrow> ref \<Rightarrow> (ref, 'w) action" where
  "createUpdateExpense env expense =
     await (get (\<lambda>s. expense_id (heap s expense))) (\<lambda>id0.
     let isNewExpense = (id0 = None) in
     await (case id0 of
              None \<Rightarrow> createExpenseId env
            | Some n \<Rightarrow> if n \<noteq> 0 then resolve n else createExpenseId env) (\<lambda>expenseId.
     await (get (\<lambda>s. tempPath (receipt (heap s expense)))) (\<lambda>pending.
     await (if truthy pending then
              await (modify (assign_receipt expense
                (\<lambda>r. r\<lparr>name := Str (show_int expenseId @ ''.jpeg'')\<rparr>))) (\<lambda>_.
              await (get (\<lambda>s. receipt (heap s expense))) (\<lambda>cameraPhoto.
              await (savePicture env cameraPhoto) (\<lambda>savedReceipt.
              modify (assign_receipt expense
                (\<lambda>r. r\<lparr>filePath := filepath savedReceipt,
                       tempPath := Null,
                       webviewPath := webviewPath_r savedReceipt\<rparr>)))))
            else resolve ()) (\<lambda>_.
     await (if isNewExpense then
              await (modify (assign_id expense expenseId)) (\<lambda>_.
              await (modify (\<lambda>s. s\<lparr>expenses := expense # expenses s\<rparr>)) (\<lambda>_.
              store_call (createExpense env) CreateExpense expense))
            else store_call (updateExpense env) UpdateExpense expense) (\<lambda>_.
     resolve expense)))))"

text \<open>
  \<open>this.expenses.splice(position, 1)\<close>: a negative start counts from the end, a start
  past the end removes nothing.
\<close>

definition splice1 :: "int \<Rightarrow> 'a list \<Rightarrow> 'a list" where
  "splice1 start xs =
     (let len = int (length xs);
          actualStart = (if start < 0 then max (len + start) 0 else min start len);
          deleteCount = min 1 (len - actualStart)
      in take (nat actualStart) xs @ drop (nat (actualStart + deleteCount)) xs)"

definition removeExpense :: "'w env \<Rightarrow> ref \<Rightarrow> int \<Rightarrow> (unit, 'w) action" where
  "removeExpense env expense position =
     await (modify (\<lambda>s. s\<lparr>expenses := splice1 position (expenses s)\<rparr>)) (\<lambda>_.
     await (store_call (deleteExpense env) DeleteExpense expense) (\<lambda>_.
     await (get (\<lambda>s. name (receipt (heap s expense)))) (\<lambda>nm.
     if truthy nm then perform (deleteFile env nm (Some Data)) (DeleteFile nm (Some Data))
     else resolve ())))"

subsection \<open>Observations on traces and the receipt invariant\<close>

fun is_write :: "event \<Rightarrow> bool" where
  "is_write (WriteFile p d dir r) = True"
| "is_write _ = False"

fun is_delete :: "event \<Rightarrow> bool" where
  "is_delete (DeleteFile p dir r) = True"
| "is_delete _ = False"

fun is_read :: "event \<Rightarrow> bool" where
  "is_read (ReadFile p dir r) = True"
| "is_read _ = False"

text \<open>The calls that only read: the sources of the bytes of a photo.\<close>

fun is_input :: "event \<Rightarrow> bool" where
  "is_input (ReadFile p dir r) = True"
| "is_input (Fetch p r) = True"
| "is_input (ResponseBlob b r) = True"
| "is_input (ReadAsDataURL b r) = True"
| "is_input _ = False"

text \<open>
  The value bound to \<open>expenseId\<close> in \<open>createUpdateExpense\<close> when it is called on
  \<open>expense\<close> in state \<open>s\<close>: the identifier of the record when it is present and
  not \<open>0\<close>, the reading of the clock otherwise.
\<close>

definition assigned_id :: "'w env \<Rightarrow> ref \<Rightarrow> 'w state \<Rightarrow> int" where
  "assigned_id env expense s =
     (case expense_id (heap s expense) of
        None \<Rightarrow> fst (getTime env (world s))
      | Some n \<Rightarrow> if n \<noteq> 0 then n else fst (getTime env (world s)))"

text \<open>
  The receipt invariant of the data model: the temporary capture reference and the
  persisted reference are not both set.
\<close>

definition receipt_inv :: "photo \<Rightarrow> bool" where
  "receipt_inv r = (\<not> (truthy (tempPath r) \<and> truthy (filePath r)))"

definition state_inv :: "'w state \<Rightarrow> bool" where
  "state_inv s = (\<forall>r. receipt_inv (receipt (heap s r)))"

subsection \<open>A concrete platform and a concrete state\<close>

text \<open>
  Collaborators that always succeed, on a device (\<open>native\<close>) or in the browser.  The
  world counts the calls made.  The state holds two saved expenses in the array and, at
  reference 2, a new expense with a fresh capture; at reference 3 a saved expense with
  identifier \<open>0\<close> and a fresh capture.
\<close>

definition example_env :: "bool \<Rightarrow> nat env" where
  "example_env native =
     \<lparr>getPlatform = (if native then ''ios'' else ''web''),
      isNativePlatform = native,
      convertFileSrc = (\<lambda>p. case p of
          Str u \<Rightarrow> if native then Str (''capacitor://localhost/_capacitor_file_'' @ u) else Str u
        | _ \<Rightarrow> p),
      getTime = (\<lambda>w. (1700000000000, Suc w)),
      storage_init = (\<lambda>w. (Inr (), Suc w)),
      readExpenses = (\<lambda>w. (Inr [0, 1], Suc w)),
      createExpense = (\<lambda>e es w. (Inr (), Suc w)),
      updateExpense = (\<lambda>e es w. (Inr (), Suc w)),
      deleteExpense = (\<lambda>e es w. (Inr (), Suc w)),
      readFile = (\<lambda>p dir w. (Inr ''aGVsbG8='', Suc w)),
      writeFile = (\<lambda>p d dir w.
          (Inr (case p of Str u \<Rightarrow> ''file:///data/'' @ u | _ \<Rightarrow> ''file:///data/''), Suc w)),
      deleteFile = (\<lambda>p dir w. (Inr (), Suc w)),
      fetch = (\<lambda>p w. (Inr ''response'', Suc w)),
      response_blob = (\<lambda>r w. (Inr ''blob'', Suc w)),
      readAsDataURL = (\<lambda>b w. (Inr ''data:image/jpeg;base64,aGVsbG8='', Suc w)),
      getPhoto = (\<lambda>opts w. (Inr (Str ''/tmp/abc.jpg'', Str ''blob:xyz''), Suc w)),
      bypassSecurityTrustUrl = SafeUrl\<rparr>"

definition example_heap :: "ref \<Rightarrow> expense" where
  "example_heap r =
     (if r = 0 then
        \<lparr>expense_id = Some 1690000000000,
         receipt = \<lparr>name = Str ''1690000000000.jpeg'', filePath = Str ''1690000000000.jpeg'',
                    tempPath = Null, webviewPath = Undefined\<rparr>\<rparr>
      else if r = 1 then
        \<lparr>expense_id = Some 1690000000001,
         receipt = \<lparr>name = Undefined, filePath = Undefined,
                    tempPath = Undefined, webviewPath = Undefined\<rparr>\<rparr>
      else if r = 2 then
        \<lparr>expense_id = None,
         receipt = \<lparr>name = Undefined, filePath = Undefined,
                    tempPath = Str ''blob:xyz'', webviewPath = Undefined\<rparr>\<rparr>
      else
        \<lparr>expense_id = Some 0,
         receipt = \<lparr>name = Undefined, filePath = Undefined,
                    tempPath = Str ''/tmp/abc.jpg'', webviewPath = Undefined\<rparr>\<rparr>)"

definition example_state :: "nat state" where
  "example_state = \<lparr>heap = example_heap, expenses = [0, 1], world = 0, trace = []\<rparr>"

section \<open>Properties\<close>

subsection \<open>Basic facts about actions\<close>

lemmas action_defs = await_def resolve_def get_def modify_def perform_def store_call_def

lemma removeExpense_expenses:
  "expenses (snd (removeExpense env e p s)) = splice1 p (expenses s)"
  by (simp add: removeExpense_def action_defs split: prod.splits sum.splits)

lemma splice1_valid:
  "0 \<le> p \<Longrightarrow> p < int (length xs) \<Longrightarrow> splice1 p xs = take (nat p) xs @ drop (Suc (nat p)) xs"
  by (simp add: splice1_def Let_def min_def nat_add_distrib)

lemma getExpense_Some:
  "getExpense i s = Some r \<Longrightarrow> r \<in> set (expenses s) \<and> expense_id (heap s r) = Some i"
  unfolding getExpense_def by (auto simp: find_Some_iff)

lemma getExpense_None:
  "getExpense i s = None \<longleftrightarrow> (\<forall>r \<in> set (expenses s). expense_id (heap s r) \<noteq> Some i)"
  unfolding getExpense_def by (auto simp: find_None_iff)

lemma input_filters:
  "list_all is_input xs \<Longrightarrow> filter is_write xs = [] \<and> filter is_delete xs = []"
proof (induction xs)
  case Nil
  then show ?case by simp
next
  case (Cons x xs)
  then show ?case by (cases x) simp_all
qed

lemma perform_eq:
  "perform f ev s = (r, s') \<longleftrightarrow>
     (\<exists>w'. f (world s) = (r, w') \<and> s' = s\<lparr>world := w', trace := trace s @ [ev r]\<rparr>)"
  by (auto simp: perform_def split: prod.splits)

subsection \<open>Runs of \<open>savePicture\<close>\<close>

lemma readAsBase64_run:
  assumes "readAsBase64 env fp s = (r, s')"
  shows "heap s' = heap s \<and> expenses s' = expenses s
       \<and> (\<exists>new. trace s' = trace s @ new \<and> list_all is_input new)"
  using assms
  by (auto simp: readAsBase64_def convertBlobToBase64_def await_def perform_eq
           split: if_splits prod.splits sum.splits)

lemma savePicture_Inr:
  assumes "savePicture env ph s = (Inr sv, s')"
  shows "heap s' = heap s \<and> expenses s' = expenses s
       \<and> (\<exists>reads d uri w.
              trace s' = trace s @ reads @ [WriteFile (name ph) d (Some Data) (Inr uri)]
            \<and> list_all is_input reads
            \<and> writeFile env (name ph) d (Some Data) w = (Inr uri, world s')
            \<and> filepath sv = (if isNativePlatform env then Str uri else name ph)
            \<and> webviewPath_r sv = (if isNativePlatform env then convertFileSrc env (Str uri)
                                   else tempPath ph))"
proof -
  from assms obtain d s1 where
    r: "readAsBase64 env (tempPath ph) s = (Inr d, s1)" and
    k: "await (perform (writeFile env (name ph) d (Some Data))
                    (WriteFile (name ph) d (Some Data))) (\<lambda>uri.
     if isNativePlatform env then
       resolve \<lparr>filepath = Str uri, webviewPath_r = convertFileSrc env (Str uri)\<rparr>
     else
       resolve \<lparr>filepath = name ph, webviewPath_r = tempPath ph\<rparr>) s1 = (Inr sv, s')"
    by (auto simp: savePicture_def await_def [of "readAsBase64 env (tempPath ph)"]
             split: prod.splits sum.splits)
  from readAsBase64_run [OF r] obtain reads where
    f: "heap s1 = heap s" "expenses s1 = expenses s" "trace s1 = trace s @ reads"
       "list_all is_input reads"
    by blast
  from k obtain uri w' where
    w: "writeFile env (name ph) d (Some Data) (world s1) = (Inr uri, w')"
       "s' = s1\<lparr>world := w', trace := trace s1 @ [WriteFile (name ph) d (Some Data) (Inr uri)]\<rparr>"
       "sv = (if isNativePlatform env
              then \<lparr>filepath = Str uri, webviewPath_r = convertFileSrc env (Str uri)\<rparr>
              else \<lparr>filepath = name ph, webviewPath_r = tempPath ph\<rparr>)"
    by (auto simp: await_def perform_eq resolve_def split: prod.splits sum.splits if_splits)
  show ?thesis using f w by auto
qed

lemma savePicture_Inl:
  assumes "savePicture env ph s = (Inl err, s')"
  shows "heap s' = heap s \<and> expenses s' = expenses s
       \<and> (\<exists>new. trace s' = trace s @ new \<and> filter is_delete new = [])"
  using assms
  by (auto simp: savePicture_def await_def perform_eq resolve_def
           split: prod.splits sum.splits if_splits dest!: readAsBase64_run input_filters)

subsection \<open>Runs of \<open>createUpdateExpense\<close>\<close>

lemmas cu_defs = createUpdateExpense_def await_def resolve_def get_def modify_def
  store_call_def createExpenseId_def assign_receipt_def assign_id_def Let_def perform_eq

lemma cu_pending:
  assumes "createUpdateExpense env e s = (Inr out, s')"
      and "truthy (tempPath (receipt (heap s e)))"
  shows "\<exists>reads d uri.
      trace s' = trace s @
        (if expense_id (heap s e) = None \<or> expense_id (heap s e) = Some 0
         then [GetTime (assigned_id env e s)] else []) @ reads @
        [WriteFile (Str (show_int (assigned_id env e s) @ ''.jpeg'')) d (Some Data) (Inr uri),
         (if expense_id (heap s e) = None then CreateExpense else UpdateExpense)
           (heap s' e) (map (heap s') (expenses s')) (Inr ())]
      \<and> list_all is_input reads
      \<and> name (receipt (heap s' e)) = Str (show_int (assigned_id env e s) @ ''.jpeg'')
      \<and> filePath (receipt (heap s' e)) =
            (if isNativePlatform env then Str uri
             else Str (show_int (assigned_id env e s) @ ''.jpeg''))
      \<and> tempPath (receipt (heap s' e)) = Null
      \<and> webviewPath (receipt (heap s' e)) =
            (if isNativePlatform env then convertFileSrc env (Str uri)
             else tempPath (receipt (heap s e)))"
  using assms
  by (cases "isNativePlatform env")
     (auto simp: cu_defs assigned_id_def split: prod.splits sum.splits option.splits if_splits
           dest!: savePicture_Inr)

lemma cu_no_pending:
  assumes "createUpdateExpense env e s = (Inr out, s')"
      and "\<not> truthy (tempPath (receipt (heap s e)))"
  shows "receipt (heap s' e) = receipt (heap s e)
       \<and> trace s' = trace s @
        (if expense_id (heap s e) = None \<or> expense_id (heap s e) = Some 0
         then [GetTime (assigned_id env e s)] else []) @
        [(if expense_id (heap s e) = None then CreateExpense else UpdateExpense)
           (heap s' e) (map (heap s') (expenses s')) (Inr ())]"
  using assms
  by (auto simp: cu_defs assigned_id_def split: prod.splits sum.splits option.splits if_splits)

lemma cu_id:
  assumes "createUpdateExpense env e s = (Inr out, s')"
  shows "expense_id (heap s' e) =
     (if expense_id (heap s e) = None then Some (assigned_id env e s) else expense_id (heap s e))"
  using assms
  by (auto simp: cu_defs assigned_id_def split: prod.splits sum.splits option.splits if_splits
           dest!: savePicture_Inr)

lemma cu_out:
  assumes "createUpdateExpense env e s = (Inr out, s')"
  shows "out = e"
  using assms
  by (auto simp: cu_defs split: prod.splits sum.splits option.splits if_splits)

lemma cu_expenses:
  assumes "createUpdateExpense env e s = (Inr out, s')"
  shows "expenses s' = (if expense_id (heap s e) = None then e # expenses s else expenses s)"
  using assms
  by (auto simp: cu_defs split: prod.splits sum.splits option.splits if_splits
           dest!: savePicture_Inr)

lemma cu_others:
  assumes "createUpdateExpense env e s = (res, s')" and "r \<noteq> e"
  shows "heap s' r = heap s r"
  using assms
  by (cases res)
     (auto simp: cu_defs split: prod.splits sum.splits option.splits if_splits
           dest!: savePicture_Inr savePicture_Inl)

subsection \<open>Decimal text of an identifier\<close>

lemma digit_zero: "n < 10 \<Longrightarrow> digit n = CHR ''0'' \<longleftrightarrow> n = 0"
  by (auto simp: digit_def nth_Cons' split: if_splits)

lemma show_nat_not_Nil: "show_nat n \<noteq> []"
  by (subst show_nat.simps) simp

lemma show_nat_zero: "show_nat n = ''0'' \<longleftrightarrow> n = 0"
proof (cases "n < 10")
  case True
  then show ?thesis by (subst show_nat.simps) (simp add: digit_zero)
next
  case False
  have "length (show_nat n) = Suc (length (show_nat (n div 10)))"
    using False by (subst show_nat.simps) simp
  moreover have "length (show_nat (n div 10)) \<noteq> 0"
    using show_nat_not_Nil by simp
  ultimately have "length (show_nat n) \<noteq> length ''0''" by simp
  then have "show_nat n \<noteq> ''0''" by metis
  then show ?thesis using False by simp
qed

lemma show_int_zero: "show_int t = show_int 0 \<longleftrightarrow> t = 0"
proof -
  have z: "show_int 0 = ''0''"
    by (simp add: show_int_def show_nat.simps digit_def)
  show ?thesis
  proof (cases "t < 0")
    case True
    then show ?thesis unfolding z by (simp add: show_int_def)
  next
    case False
    then show ?thesis unfolding z by (simp add: show_int_def show_nat_zero)
  qed
qed

subsection \<open>Removal from the array\<close>

text \<open>
  C5.  For a position \<open>p\<close> inside the array, \<open>removeExpense\<close> leaves an array one
  shorter: the entries before \<open>p\<close> stay where they were, the entries after \<open>p\<close> move
  one place down, and the entry at \<open>p\<close> is gone.  This holds whatever the collaborators
  reply, since the array is changed before the first call.
\<close>

theorem removeExpense_removes_position:
  assumes "0 \<le> p" and "p < int (length (expenses s))"
  shows "length (expenses (snd (removeExpense env e p s))) = length (expenses s) - 1
       \<and> expenses (snd (removeExpense env e p s))
           = take (nat p) (expenses s) @ drop (Suc (nat p)) (expenses s)
       \<and> (\<forall>i. i < nat p \<longrightarrow> expenses (snd (removeExpense env e p s)) ! i = expenses s ! i)
       \<and> (\<forall>i. nat p \<le> i \<and> i < length (expenses s) - 1 \<longrightarrow>
             expenses (snd (removeExpense env e p s)) ! i = expenses s ! Suc i)"
proof -
  let ?xs = "expenses s"
  have eq: "expenses (snd (removeExpense env e p s)) = take (nat p) ?xs @ drop (Suc (nat p)) ?xs"
    using assms by (simp add: removeExpense_expenses splice1_valid)
  have lt: "nat p < length ?xs" using assms by simp
  have len: "length (take (nat p) ?xs @ drop (Suc (nat p)) ?xs) = length ?xs - 1"
    using lt by simp
  have lo: "\<forall>i. i < nat p \<longrightarrow> (take (nat p) ?xs @ drop (Suc (nat p)) ?xs) ! i = ?xs ! i"
    using lt by (simp add: nth_append)
  have hi: "\<forall>i. nat p \<le> i \<and> i < length ?xs - 1 \<longrightarrow>
      (take (nat p) ?xs @ drop (Suc (nat p)) ?xs) ! i = ?xs ! Suc i"
    using lt by (auto simp: nth_append min_def)
  show ?thesis using eq len lo hi by simp
qed

theorem removeExpense_removes_position_witness:
  "(0::int) \<le> 0 \<and> (0::int) < int (length (expenses example_state))
   \<and> expenses example_state = [0, 1]
   \<and> expenses (snd (removeExpense (example_env False) 0 0 example_state)) = [1]
   \<and> length (expenses (snd (removeExpense (example_env False) 0 0 example_state))) = 1"
proof -
  have h1: "(0::int) \<le> 0" by simp
  have h2: "(0::int) < int (length (expenses example_state))"
    by (simp add: example_state_def)
  have xs: "expenses example_state = [0, 1]"
    by (simp add: example_state_def)
  note t = removeExpense_removes_position [OF h1 h2, of "example_env False" 0]
  from t have "expenses (snd (removeExpense (example_env False) 0 0 example_state))
      = take (nat 0) (expenses example_state) @ drop (Suc (nat 0)) (expenses example_state)"
    by (rule conjunct1 [OF conjunct2])
  then have r: "expenses (snd (removeExpense (example_env False) 0 0 example_state)) = [1]"
    by (simp only: xs nat_0 take_0 drop_Suc_Cons drop_0 append_Nil)
  show ?thesis using h1 h2 xs r by simp
qed

subsection \<open>Lookup\<close>

text \<open>
  C7.  \<open>getExpense i\<close> returns \<open>undefined\<close> exactly when no record of the array has
  identifier \<open>i\<close>; otherwise it returns a record of the array with identifier \<open>i\<close>,
  and the record with that identifier when there is only one.  It never returns a
  record whose identifier is another one.
\<close>

theorem getExpense_lookup:
  "(getExpense i s = None \<longleftrightarrow> (\<forall>r \<in> set (expenses s). expense_id (heap s r) \<noteq> Some i))
   \<and> (\<forall>r. getExpense i s = Some r \<longrightarrow> r \<in> set (expenses s) \<and> expense_id (heap s r) = Some i)
   \<and> ((\<exists>r \<in> set (expenses s). expense_id (heap s r) = Some i) \<longrightarrow>
        (\<exists>r \<in> set (expenses s). getExpense i s = Some r \<and> expense_id (heap s r) = Some i))
   \<and> (\<forall>r. r \<in> set (expenses s) \<and> expense_id (heap s r) = Some i
         \<and> (\<forall>r' \<in> set (expenses s). expense_id (heap s r') = Some i \<longrightarrow> r' = r)
        \<longrightarrow> getExpense i s = Some r)
   \<and> (\<forall>r2 j. expense_id (heap s r2) = Some j \<and> j \<noteq> i \<longrightarrow> getExpense i s \<noteq> Some r2)"
proof -
  have a: "getExpense i s = None \<longleftrightarrow> (\<forall>r \<in> set (expenses s). expense_id (heap s r) \<noteq> Some i)"
    by (rule getExpense_None)
  have b: "\<forall>r. getExpense i s = Some r \<longrightarrow> r \<in> set (expenses s) \<and> expense_id (heap s r) = Some i"
    using getExpense_Some by blast
  have c: "(\<exists>r \<in> set (expenses s). expense_id (heap s r) = Some i) \<longrightarrow>
        (\<exists>r \<in> set (expenses s). getExpense i s = Some r \<and> expense_id (heap s r) = Some i)"
    using a b by (cases "getExpense i s") auto
  have d: "\<forall>r. r \<in> set (expenses s) \<and> expense_id (heap s r) = Some i
         \<and> (\<forall>r' \<in> set (expenses s). expense_id (heap s r') = Some i \<longrightarrow> r' = r)
        \<longrightarrow> getExpense i s = Some r"
    using a b by (cases "getExpense i s") auto
  have e: "\<forall>r2 j. expense_id (heap s r2) = Some j \<and> j \<noteq> i \<longrightarrow> getExpense i s \<noteq> Some r2"
    using b by auto
  show ?thesis using a b c d e by blast
qed

theorem getExpense_lookup_witness:
  "expense_id (heap example_state 0) = Some 1690000000000
   \<and> expense_id (heap example_state 1) = Some 1690000000001
   \<and> getExpense 1690000000000 example_state = Some 0
   \<and> getExpense 1690000000000 example_state \<noteq> Some 1
   \<and> getExpense 7 example_state = None"
proof -
  have id0: "expense_id (heap example_state 0) = Some 1690000000000"
    by (simp add: example_state_def example_heap_def)
  have id1: "expense_id (heap example_state 1) = Some 1690000000001"
    by (simp add: example_state_def example_heap_def)
  have mem: "set (expenses example_state) = {0, 1}"
    by (auto simp: example_state_def)
  note t = getExpense_lookup [of 1690000000000 example_state]
  have uniq: "\<forall>r' \<in> set (expenses example_state).
      expense_id (heap example_state r') = Some 1690000000000 \<longrightarrow> r' = 0"
    unfolding mem using id1 by simp
  have a: "getExpense 1690000000000 example_state = Some 0"
    using t id0 uniq mem by blast
  have b: "getExpense 1690000000000 example_state \<noteq> Some 1"
    using a by simp
  have "\<forall>r \<in> set (expenses example_state). expense_id (heap example_state r) \<noteq> Some 7"
    unfolding mem using id0 id1 by simp
  then have c: "getExpense 7 example_state = None"
    using getExpense_lookup [of 7 example_state] by blast
  show ?thesis using id0 id1 a b c by simp
qed

subsection \<open>Evaluation on the concrete state\<close>

lemmas eval_defs = createUpdateExpense_def savePicture_def readAsBase64_def
  convertBlobToBase64_def createExpenseId_def removeExpense_def loadSaved_def
  captureExpenseReceipt_def await_def resolve_def get_def modify_def
  perform_def store_call_def assign_receipt_def assign_id_def Let_def
  example_env_def example_state_def example_heap_def

lemma show_int_example: "show_int 1700000000000 = ''1700000000000''"
  by (simp add: show_int_def show_nat.simps digit_def)

lemma run_collapse: "fst p = r \<Longrightarrow> p = (r, snd p)"
  by (cases p) simp

subsection \<open>Saving a picture\<close>

text \<open>
  C3.  When \<open>savePicture\<close> resolves, its last call is the write of the photo under its
  \<open>name\<close> (the target file name, \<open><id>.jpeg\<close> when called from
  \<open>createUpdateExpense\<close>) in the data directory.  On a native platform the persisted
  reference it returns is the URI the write returned, and the display reference is
  \<open>convertFileSrc\<close> of that URI.  Otherwise the persisted reference is the target file
  name and the display reference is the temporary capture path, unchanged.
\<close>

theorem savePicture_result:
  assumes "savePicture env cameraPhoto s = (Inr saved, s')"
  shows "\<exists>base64Data uri w.
           last (trace s') = WriteFile (name cameraPhoto) base64Data (Some Data) (Inr uri)
         \<and> writeFile env (name cameraPhoto) base64Data (Some Data) w = (Inr uri, world s')
         \<and> (isNativePlatform env \<longrightarrow>
               filepath saved = Str uri \<and> webviewPath_r saved = convertFileSrc env (Str uri))
         \<and> (\<not> isNativePlatform env \<longrightarrow>
               filepath saved = name cameraPhoto \<and> webviewPath_r saved = tempPath cameraPhoto)"
proof -
  from savePicture_Inr [OF assms] obtain reads d uri w where
    t: "trace s' = trace s @ reads @ [WriteFile (name cameraPhoto) d (Some Data) (Inr uri)]" and
    c: "writeFile env (name cameraPhoto) d (Some Data) w = (Inr uri, world s')" and
    f: "filepath saved = (if isNativePlatform env then Str uri else name cameraPhoto)" and
    v: "webviewPath_r saved =
          (if isNativePlatform env then convertFileSrc env (Str uri) else tempPath cameraPhoto)"
    by blast
  have "last (trace s') = WriteFile (name cameraPhoto) d (Some Data) (Inr uri)"
    by (simp add: t)
  then show ?thesis using c f v by auto
qed

theorem savePicture_result_witness:
  "fst (savePicture (example_env True)
          \<lparr>name = Str ''1700000000000.jpeg'', filePath = Undefined,
           tempPath = Str ''/tmp/abc.jpg'', webviewPath = Undefined\<rparr> example_state)
     = Inr \<lparr>filepath = Str ''file:///data/1700000000000.jpeg'',
            webviewPath_r =
              Str ''capacitor://localhost/_capacitor_file_file:///data/1700000000000.jpeg''\<rparr>
   \<and> fst (savePicture (example_env False)
          \<lparr>name = Str ''1700000000000.jpeg'', filePath = Undefined,
           tempPath = Str ''blob:xyz'', webviewPath = Undefined\<rparr> example_state)
     = Inr \<lparr>filepath = Str ''1700000000000.jpeg'', webviewPath_r = Str ''blob:xyz''\<rparr>"
proof -
  let ?n = "\<lparr>name = Str ''1700000000000.jpeg'', filePath = Undefined,
           tempPath = Str ''/tmp/abc.jpg'', webviewPath = Undefined\<rparr>"
  let ?w = "\<lparr>name = Str ''1700000000000.jpeg'', filePath = Undefined,
           tempPath = Str ''blob:xyz'', webviewPath = Undefined\<rparr>"
  let ?sn = "\<lparr>filepath = Str ''file:///data/1700000000000.jpeg'',
            webviewPath_r =
              Str ''capacitor://localhost/_capacitor_file_file:///data/1700000000000.jpeg''\<rparr>"
  let ?sw = "\<lparr>filepath = Str ''1700000000000.jpeg'', webviewPath_r = Str ''blob:xyz''\<rparr>"
  have n: "fst (savePicture (example_env True) ?n example_state) = Inr ?sn"
    by (simp add: eval_defs)
  have w: "fst (savePicture (example_env False) ?w example_state) = Inr ?sw"
    by (simp add: eval_defs)
  have "\<not> isNativePlatform (example_env False)"
    by (simp add: example_env_def)
  with savePicture_result [OF run_collapse [OF w]]
  have "filepath ?sw = name ?w \<and> webviewPath_r ?sw = tempPath ?w"
    by blast
  then show ?thesis using n w by simp
qed

subsection \<open>Creating and updating\<close>

text \<open>
  C1.  When \<open>createUpdateExpense\<close> is called on a record with a pending capture
  reference (\<open>tempPath\<close>) and resolves: among the calls it has made there is exactly
  one write to the file system, under the name \<open><expenseId>.jpeg\<close> in the data
  directory, where \<open>expenseId\<close> is the identifier the operation assigned
  (\<open>assigned_id\<close>); the persisted reference of the record is the URI returned by the
  write on a native platform and the file name otherwise; its display reference is the
  translated URI on a native platform and the capture reference otherwise; and its
  pending capture reference is \<open>null\<close>.  \<open>expenseId\<close> is the identifier of the record
  after the operation, unless the record came with identifier \<open>0\<close>.
\<close>

theorem createUpdateExpense_persists_pending_capture:
  assumes "truthy (tempPath (receipt (heap s e)))"
      and "createUpdateExpense env e s = (Inr out, s')"
  shows "\<exists>new d uri.
           trace s' = trace s @ new
         \<and> filter is_write new =
             [WriteFile (Str (show_int (assigned_id env e s) @ ''.jpeg'')) d (Some Data) (Inr uri)]
         \<and> filePath (receipt (heap s' e)) =
             (if isNativePlatform env then Str uri
              else Str (show_int (assigned_id env e s) @ ''.jpeg''))
         \<and> webviewPath (receipt (heap s' e)) =
             (if isNativePlatform env then convertFileSrc env (Str uri)
              else tempPath (receipt (heap s e)))
         \<and> tempPath (receipt (heap s' e)) = Null
         \<and> name (receipt (heap s' e)) = Str (show_int (assigned_id env e s) @ ''.jpeg'')
         \<and> out = e
         \<and> (expense_id (heap s e) \<noteq> Some 0 \<longrightarrow>
              expense_id (heap s' e) = Some (assigned_id env e s))"
proof -
  let ?n = "assigned_id env e s"
  let ?clock = "if expense_id (heap s e) = None \<or> expense_id (heap s e) = Some 0
                then [GetTime ?n] else []"
  let ?store = "(if expense_id (heap s e) = None then CreateExpense else UpdateExpense)
                  (heap s' e) (map (heap s') (expenses s')) (Inr ())"
  from cu_pending [OF assms(2) assms(1)] obtain reads d uri where
    t: "trace s' = trace s @ ?clock @ reads @
          [WriteFile (Str (show_int ?n @ ''.jpeg'')) d (Some Data) (Inr uri), ?store]" and
    i: "list_all is_input reads" and
    r: "name (receipt (heap s' e)) = Str (show_int ?n @ ''.jpeg'')"
       "filePath (receipt (heap s' e)) =
          (if isNativePlatform env then Str uri else Str (show_int ?n @ ''.jpeg''))"
       "tempPath (receipt (heap s' e)) = Null"
       "webviewPath (receipt (heap s' e)) =
          (if isNativePlatform env then convertFileSrc env (Str uri)
           else tempPath (receipt (heap s e)))"
    by blast
  let ?new = "?clock @ reads @
          [WriteFile (Str (show_int ?n @ ''.jpeg'')) d (Some Data) (Inr uri), ?store]"
  have w: "filter is_write ?new =
      [WriteFile (Str (show_int ?n @ ''.jpeg'')) d (Some Data) (Inr uri)]"
    using input_filters [OF i] by simp
  have o: "out = e" using assms(2) by (rule cu_out)
  have d: "expense_id (heap s e) \<noteq> Some 0 \<longrightarrow> expense_id (heap s' e) = Some ?n"
    using cu_id [OF assms(2)] by (auto simp: assigned_id_def)
  show ?thesis using t w r o d by blast
qed

theorem createUpdateExpense_persists_pending_capture_witness:
  "truthy (tempPath (receipt (heap example_state 2)))
   \<and> fst (createUpdateExpense (example_env False) 2 example_state) = Inr 2
   \<and> assigned_id (example_env False) 2 example_state = 1700000000000
   \<and> receipt (heap (snd (createUpdateExpense (example_env False) 2 example_state)) 2)
       = \<lparr>name = Str ''1700000000000.jpeg'', filePath = Str ''1700000000000.jpeg'',
          tempPath = Null, webviewPath = Str ''blob:xyz''\<rparr>
   \<and> filter is_write (trace (snd (createUpdateExpense (example_env False) 2 example_state)))
       = [WriteFile (Str ''1700000000000.jpeg'') ''data:image/jpeg;base64,aGVsbG8=''
            (Some Data) (Inr ''file:///data/1700000000000.jpeg'')]"
proof -
  have h: "truthy (tempPath (receipt (heap example_state 2)))"
    by (simp add: example_state_def example_heap_def)
  have r: "fst (createUpdateExpense (example_env False) 2 example_state) = Inr 2"
    by (simp add: eval_defs)
  have a: "assigned_id (example_env False) 2 example_state = 1700000000000"
    by (simp add: assigned_id_def example_env_def example_state_def example_heap_def)
  have p: "receipt (heap (snd (createUpdateExpense (example_env False) 2 example_state)) 2)
       = \<lparr>name = Str ''1700000000000.jpeg'', filePath = Str ''1700000000000.jpeg'',
          tempPath = Null, webviewPath = Str ''blob:xyz''\<rparr>"
    by (simp add: eval_defs show_int_example)
  have t: "filter is_write (trace (snd (createUpdateExpense (example_env False) 2 example_state)))
       = [WriteFile (Str ''1700000000000.jpeg'') ''data:image/jpeg;base64,aGVsbG8=''
            (Some Data) (Inr ''file:///data/1700000000000.jpeg'')]"
    by (simp add: eval_defs show_int_example)
  from createUpdateExpense_persists_pending_capture [OF h run_collapse [OF r]]
  have "tempPath (receipt (heap (snd (createUpdateExpense (example_env False) 2 example_state)) 2))
      = Null"
    by blast
  then show ?thesis using h r a p t by simp
qed

text \<open>
  C4.  When \<open>createUpdateExpense\<close> is called on a record without identifier and
  resolves, the record is at position 0 of the array and every record that was in the
  array is one position later, in the same order.  The record has received the reading
  of the clock as identifier, and no other object has changed.
\<close>

theorem createUpdateExpense_prepends_new:
  assumes "expense_id (heap s e) = None"
      and "createUpdateExpense env e s = (Inr out, s')"
  shows "expenses s' = e # expenses s
       \<and> expenses s' ! 0 = e
       \<and> length (expenses s') = Suc (length (expenses s))
       \<and> (\<forall>i. i < length (expenses s) \<longrightarrow> expenses s' ! Suc i = expenses s ! i)
       \<and> expense_id (heap s' e) = Some (fst (getTime env (world s)))
       \<and> (\<forall>r. r \<noteq> e \<longrightarrow> heap s' r = heap s r)"
proof -
  have x: "expenses s' = e # expenses s"
    using cu_expenses [OF assms(2)] assms(1) by simp
  have i: "expense_id (heap s' e) = Some (fst (getTime env (world s)))"
    using cu_id [OF assms(2)] assms(1) by (simp add: assigned_id_def)
  have o: "\<forall>r. r \<noteq> e \<longrightarrow> heap s' r = heap s r"
    using cu_others [OF assms(2)] by blast
  show ?thesis using x i o by simp
qed

theorem createUpdateExpense_prepends_new_witness:
  "expense_id (heap example_state 2) = None
   \<and> expenses example_state = [0, 1]
   \<and> fst (createUpdateExpense (example_env True) 2 example_state) = Inr 2
   \<and> expenses (snd (createUpdateExpense (example_env True) 2 example_state)) = [2, 0, 1]"
proof -
  have h: "expense_id (heap example_state 2) = None"
    by (simp add: example_state_def example_heap_def)
  have x: "expenses example_state = [0, 1]"
    by (simp add: example_state_def)
  have r: "fst (createUpdateExpense (example_env True) 2 example_state) = Inr 2"
    by (simp add: eval_defs)
  from createUpdateExpense_prepends_new [OF h run_collapse [OF r]]
  have "expenses (snd (createUpdateExpense (example_env True) 2 example_state))
      = 2 # expenses example_state"
    by blast
  then show ?thesis using h x r by simp
qed

text \<open>
  C10.  When \<open>createUpdateExpense\<close> is called on a record with identifier \<open>0\<close> and a
  pending capture reference, and resolves: the clock is read first; the file is written
  under the name made from the reading \<open>t\<close> of the clock; the last call is
  \<open>updateExpense\<close> on the store; the array is unchanged and the identifier of the record
  is still \<open>0\<close>.  For every reading of the clock but \<open>0\<close> the file name is not the
  name \<open>0.jpeg\<close> that the identifier of the record gives.
\<close>

theorem createUpdateExpense_zero_id:
  assumes "expense_id (heap s e) = Some 0"
      and "truthy (tempPath (receipt (heap s e)))"
      and "createUpdateExpense env e s = (Inr out, s')"
      and "t = fst (getTime env (world s))"
  shows "expenses s' = expenses s
       \<and> expense_id (heap s' e) = Some 0
       \<and> (\<exists>reads d uri.
            trace s' = trace s @ [GetTime t] @ reads @
              [WriteFile (Str (show_int t @ ''.jpeg'')) d (Some Data) (Inr uri),
               UpdateExpense (heap s' e) (map (heap s') (expenses s')) (Inr ())]
            \<and> list_all is_input reads)
       \<and> name (receipt (heap s' e)) = Str (show_int t @ ''.jpeg'')
       \<and> (t \<noteq> 0 \<longrightarrow> show_int t @ ''.jpeg'' \<noteq> show_int 0 @ ''.jpeg'')"
proof -
  have a: "assigned_id env e s = t"
    using assms(1) assms(4) by (simp add: assigned_id_def)
  have x: "expenses s' = expenses s"
    using cu_expenses [OF assms(3)] assms(1) by simp
  have i: "expense_id (heap s' e) = Some 0"
    using cu_id [OF assms(3)] assms(1) by simp
  from cu_pending [OF assms(3) assms(2)] obtain reads d uri where
    "trace s' = trace s @ [GetTime t] @ reads @
       [WriteFile (Str (show_int t @ ''.jpeg'')) d (Some Data) (Inr uri),
        UpdateExpense (heap s' e) (map (heap s') (expenses s')) (Inr ())]"
    "list_all is_input reads"
    "name (receipt (heap s' e)) = Str (show_int t @ ''.jpeg'')"
    unfolding a using assms(1) by auto
  moreover have "t \<noteq> 0 \<longrightarrow> show_int t @ ''.jpeg'' \<noteq> show_int 0 @ ''.jpeg''"
    by (simp add: show_int_zero)
  ultimately show ?thesis using x i by blast
qed

theorem createUpdateExpense_zero_id_witness:
  "expense_id (heap example_state 3) = Some 0
   \<and> truthy (tempPath (receipt (heap example_state 3)))
   \<and> fst (createUpdateExpense (example_env True) 3 example_state) = Inr 3
   \<and> fst (getTime (example_env True) (world example_state)) = 1700000000000
   \<and> expense_id (heap (snd (createUpdateExpense (example_env True) 3 example_state)) 3) = Some 0
   \<and> name (receipt (heap (snd (createUpdateExpense (example_env True) 3 example_state)) 3))
       = Str ''1700000000000.jpeg''
   \<and> expenses (snd (createUpdateExpense (example_env True) 3 example_state)) = [0, 1]"
proof -
  have h1: "expense_id (heap example_state 3) = Some 0"
    by (simp add: example_state_def example_heap_def)
  have h2: "truthy (tempPath (receipt (heap example_state 3)))"
    by (simp add: example_state_def example_heap_def)
  have r: "fst (createUpdateExpense (example_env True) 3 example_state) = Inr 3"
    by (simp add: eval_defs)
  have c: "fst (getTime (example_env True) (world example_state)) = 1700000000000"
    by (simp add: example_env_def)
  note t = createUpdateExpense_zero_id [OF h1 h2 run_collapse [OF r] c [symmetric]]
  from t have i: "expense_id (heap (snd (createUpdateExpense (example_env True) 3 example_state)) 3)
      = Some 0"
    by blast
  from t have n: "name (receipt (heap (snd (createUpdateExpense (example_env True) 3 example_state)) 3))
      = Str (show_int 1700000000000 @ ''.jpeg'')"
    by blast
  from t have x: "expenses (snd (createUpdateExpense (example_env True) 3 example_state))
      = expenses example_state"
    by blast
  have e: "expenses example_state = [0, 1]"
    by (simp add: example_state_def)
  show ?thesis using h1 h2 r c i n x e by (simp add: show_int_example)
qed

subsection \<open>Runs of \<open>removeExpense\<close>\<close>

lemma removeExpense_run:
  assumes "removeExpense env e p s = (res, s')"
  shows "heap s' = heap s \<and> expenses s' = splice1 p (expenses s)
       \<and> ((\<exists>err. res = Inl err
              \<and> deleteExpense env (heap s e) (map (heap s) (splice1 p (expenses s))) (world s)
                  = (Inl err, world s')
              \<and> trace s' = trace s @
                  [DeleteExpense (heap s e) (map (heap s) (splice1 p (expenses s))) (Inl err)])
          \<or> (\<not> truthy (name (receipt (heap s e))) \<and> res = Inr ()
              \<and> trace s' = trace s @
                  [DeleteExpense (heap s e) (map (heap s) (splice1 p (expenses s))) (Inr ())])
          \<or> (truthy (name (receipt (heap s e)))
              \<and> (\<exists>w. deleteExpense env (heap s e) (map (heap s) (splice1 p (expenses s))) (world s)
                         = (Inr (), w)
                     \<and> deleteFile env (name (receipt (heap s e))) (Some Data) w = (res, world s'))
              \<and> trace s' = trace s @
                  [DeleteExpense (heap s e) (map (heap s) (splice1 p (expenses s))) (Inr ()),
                   DeleteFile (name (receipt (heap s e))) (Some Data) res]))"
  using assms
  by (auto simp: removeExpense_def await_def resolve_def get_def modify_def store_call_def
                 perform_eq
           split: prod.splits sum.splits if_splits)

subsection \<open>Removal and the file system\<close>

text \<open>
  C6.  Among the calls of one \<open>removeExpense\<close> there is at most one file deletion.
  When the receipt of the record has a stored file name (\<open>name\<close>) and the operation
  resolves, there is exactly one: of that name, in the data directory.  The same holds
  whenever the deletion in the store has succeeded, whatever the file deletion replies.
  When the receipt has no file name there is none, in every outcome.
\<close>

theorem removeExpense_file_delete:
  assumes "removeExpense env e p s = (res, s')"
  shows "\<exists>new. trace s' = trace s @ new
       \<and> length (filter is_delete new) \<le> 1
       \<and> (truthy (name (receipt (heap s e))) \<and> res = Inr () \<longrightarrow>
            filter is_delete new = [DeleteFile (name (receipt (heap s e))) (Some Data) (Inr ())])
       \<and> (truthy (name (receipt (heap s e)))
            \<and> DeleteExpense (heap s e) (map (heap s) (splice1 p (expenses s))) (Inr ()) \<in> set new
           \<longrightarrow> filter is_delete new = [DeleteFile (name (receipt (heap s e))) (Some Data) res])
       \<and> (\<not> truthy (name (receipt (heap s e))) \<longrightarrow> filter is_delete new = [])"
  using removeExpense_run [OF assms] by (elim conjE disjE exE) auto

theorem removeExpense_file_delete_witness:
  "truthy (name (receipt (heap example_state 0)))
   \<and> \<not> truthy (name (receipt (heap example_state 1)))
   \<and> fst (removeExpense (example_env True) 0 0 example_state) = Inr ()
   \<and> filter is_delete (trace (snd (removeExpense (example_env True) 0 0 example_state)))
       = [DeleteFile (Str ''1690000000000.jpeg'') (Some Data) (Inr ())]
   \<and> filter is_delete (trace (snd (removeExpense (example_env True) 1 1 example_state))) = []"
proof -
  have h0: "truthy (name (receipt (heap example_state 0)))"
    by (simp add: example_state_def example_heap_def)
  have h1: "\<not> truthy (name (receipt (heap example_state 1)))"
    by (simp add: example_state_def example_heap_def)
  have r0: "fst (removeExpense (example_env True) 0 0 example_state) = Inr ()"
    by (simp add: eval_defs)
  have t0: "trace example_state = []"
    by (simp add: example_state_def)
  have n0: "name (receipt (heap example_state 0)) = Str ''1690000000000.jpeg''"
    by (simp add: example_state_def example_heap_def)
  from removeExpense_file_delete [OF run_collapse [OF r0]] h0
  have d0: "filter is_delete (trace (snd (removeExpense (example_env True) 0 0 example_state)))
      = [DeleteFile (name (receipt (heap example_state 0))) (Some Data) (Inr ())]"
    unfolding t0 by auto
  have r1: "removeExpense (example_env True) 1 1 example_state
      = (fst (removeExpense (example_env True) 1 1 example_state),
         snd (removeExpense (example_env True) 1 1 example_state))"
    by simp
  from removeExpense_file_delete [OF r1] h1
  have d1: "filter is_delete (trace (snd (removeExpense (example_env True) 1 1 example_state))) = []"
    unfolding t0 by auto
  show ?thesis using h0 h1 r0 d0 d1 n0 by simp
qed

text \<open>
  C9.  When \<open>removeExpense\<close> rejects, the rejection is the one a collaborator replied:
  either the store rejected the deletion, and then no file deletion was called, or the
  store deleted the record and the file deletion rejected.  In both cases the record at
  the position is already out of the array (the store was handed the array without it)
  and stays out: for a position inside the array, the array is one shorter than before
  the call.
\<close>

theorem removeExpense_not_atomic:
  assumes "removeExpense env e p s = (Inl err, s')"
  shows "expenses s' = splice1 p (expenses s)
       \<and> heap s' = heap s
       \<and> ((deleteExpense env (heap s e) (map (heap s) (splice1 p (expenses s))) (world s)
              = (Inl err, world s')
            \<and> trace s' = trace s @
                [DeleteExpense (heap s e) (map (heap s) (splice1 p (expenses s))) (Inl err)])
          \<or> (truthy (name (receipt (heap s e)))
            \<and> (\<exists>w. deleteExpense env (heap s e) (map (heap s) (splice1 p (expenses s))) (world s)
                       = (Inr (), w)
                   \<and> deleteFile env (name (receipt (heap s e))) (Some Data) w
                       = (Inl err, world s'))
            \<and> trace s' = trace s @
                [DeleteExpense (heap s e) (map (heap s) (splice1 p (expenses s))) (Inr ()),
                 DeleteFile (name (receipt (heap s e))) (Some Data) (Inl err)]))
       \<and> (0 \<le> p \<and> p < int (length (expenses s)) \<longrightarrow>
            length (expenses s') = length (expenses s) - 1 \<and> expenses s' \<noteq> expenses s)"
proof -
  from removeExpense_run [OF assms]
  have a: "expenses s' = splice1 p (expenses s)" and b: "heap s' = heap s" and
    c: "(deleteExpense env (heap s e) (map (heap s) (splice1 p (expenses s))) (world s)
              = (Inl err, world s')
            \<and> trace s' = trace s @
                [DeleteExpense (heap s e) (map (heap s) (splice1 p (expenses s))) (Inl err)])
          \<or> (truthy (name (receipt (heap s e)))
            \<and> (\<exists>w. deleteExpense env (heap s e) (map (heap s) (splice1 p (expenses s))) (world s)
                       = (Inr (), w)
                   \<and> deleteFile env (name (receipt (heap s e))) (Some Data) w
                       = (Inl err, world s'))
            \<and> trace s' = trace s @
                [DeleteExpense (heap s e) (map (heap s) (splice1 p (expenses s))) (Inr ()),
                 DeleteFile (name (receipt (heap s e))) (Some Data) (Inl err)])"
    by auto
  have d: "0 \<le> p \<and> p < int (length (expenses s)) \<longrightarrow>
            length (expenses s') = length (expenses s) - 1 \<and> expenses s' \<noteq> expenses s"
  proof
    assume v: "0 \<le> p \<and> p < int (length (expenses s))"
    then have "expenses s' = take (nat p) (expenses s) @ drop (Suc (nat p)) (expenses s)"
      using a by (simp add: splice1_valid)
    then have l: "length (expenses s') = length (expenses s) - 1"
      using v by (auto simp: min_def)
    moreover have "length (expenses s) \<noteq> 0" using v by auto
    ultimately have "length (expenses s') \<noteq> length (expenses s)" by arith
    then have "expenses s' \<noteq> expenses s" by auto
    with l show "length (expenses s') = length (expenses s) - 1 \<and> expenses s' \<noteq> expenses s"
      by simp
  qed
  show ?thesis using a b c d by blast
qed

theorem removeExpense_not_atomic_witness:
  "fst (removeExpense
         ((example_env True)\<lparr>deleteFile := \<lambda>p dir w. (Inl (Rejected ''ENOENT''), Suc w)\<rparr>)
         0 0 example_state) = Inl (Rejected ''ENOENT'')
   \<and> expenses example_state = [0, 1]
   \<and> expenses (snd (removeExpense
         ((example_env True)\<lparr>deleteFile := \<lambda>p dir w. (Inl (Rejected ''ENOENT''), Suc w)\<rparr>)
         0 0 example_state)) = [1]
   \<and> fst (removeExpense
         ((example_env True)\<lparr>deleteExpense := \<lambda>e es w. (Inl (Rejected ''locked''), Suc w)\<rparr>)
         0 0 example_state) = Inl (Rejected ''locked'')
   \<and> expenses (snd (removeExpense
         ((example_env True)\<lparr>deleteExpense := \<lambda>e es w. (Inl (Rejected ''locked''), Suc w)\<rparr>)
         0 0 example_state)) = [1]"
proof -
  let ?f = "(example_env True)\<lparr>deleteFile := \<lambda>p dir w. (Inl (Rejected ''ENOENT''), Suc w)\<rparr>"
  let ?g = "(example_env True)\<lparr>deleteExpense := \<lambda>e es w. (Inl (Rejected ''locked''), Suc w)\<rparr>"
  have rf: "fst (removeExpense ?f 0 0 example_state) = Inl (Rejected ''ENOENT'')"
    by (simp add: eval_defs)
  have rg: "fst (removeExpense ?g 0 0 example_state) = Inl (Rejected ''locked'')"
    by (simp add: eval_defs)
  have x: "expenses example_state = [0, 1]"
    by (simp add: example_state_def)
  have sp: "splice1 0 [0, Suc 0] = [Suc 0]"
    by (simp add: splice1_def)
  from removeExpense_not_atomic [OF run_collapse [OF rf]]
  have xf: "expenses (snd (removeExpense ?f 0 0 example_state)) = splice1 0 (expenses example_state)"
    by blast
  from removeExpense_not_atomic [OF run_collapse [OF rg]]
  have xg: "expenses (snd (removeExpense ?g 0 0 example_state)) = splice1 0 (expenses example_state)"
    by blast
  show ?thesis using rf rg x xf xg sp by simp
qed

subsection \<open>Runs of \<open>loadSaved\<close>\<close>

lemma load_photos_Cons:
  "load_photos env (x # rest) s =
     (if truthy (filePath (receipt (heap s x))) then
        (case readFile env (filePath (receipt (heap s x))) (Some Data) (world s) of
           (Inl err, w) \<Rightarrow>
             (Inl err,
              s\<lparr>world := w,
                trace := trace s @ [ReadFile (filePath (receipt (heap s x))) (Some Data) (Inl err)]\<rparr>)
         | (Inr d, w) \<Rightarrow>
             load_photos env rest
               (assign_receipt x (\<lambda>r. r\<lparr>webviewPath := Str (''data:image/jpeg;base64,'' @ d)\<rparr>)
                 (s\<lparr>world := w,
                    trace := trace s @
                      [ReadFile (filePath (receipt (heap s x))) (Some Data) (Inr d)]\<rparr>)))
      else load_photos env rest s)"
  by (simp add: await_def get_def modify_def resolve_def perform_def
           split: prod.splits sum.splits)

declare load_photos.simps(2) [simp del]

lemma load_photos_Cons_cases:
  assumes "load_photos env (x # rest) s = (res, s')"
  obtains
    (skip) "\<not> truthy (filePath (receipt (heap s x)))" "load_photos env rest s = (res, s')"
  | (fail) err w where "truthy (filePath (receipt (heap s x)))"
      "res = Inl err"
      "s' = s\<lparr>world := w,
               trace := trace s @ [ReadFile (filePath (receipt (heap s x))) (Some Data) (Inl err)]\<rparr>"
  | (read) d w where "truthy (filePath (receipt (heap s x)))"
      "readFile env (filePath (receipt (heap s x))) (Some Data) (world s) = (Inr d, w)"
      "load_photos env rest
         (assign_receipt x (\<lambda>r. r\<lparr>webviewPath := Str (''data:image/jpeg;base64,'' @ d)\<rparr>)
            (s\<lparr>world := w,
               trace := trace s @
                 [ReadFile (filePath (receipt (heap s x))) (Some Data) (Inr d)]\<rparr>)) = (res, s')"
  using assms
  by (auto simp: load_photos_Cons split: if_splits prod.splits sum.splits)

lemma load_photos_expenses:
  "load_photos env rs s = (res, s') \<Longrightarrow> expenses s' = expenses s"
proof (induction rs arbitrary: s)
  case Nil
  then show ?case by (simp add: resolve_def)
next
  case (Cons x rest)
  from Cons.prems show ?case
  proof (cases rule: load_photos_Cons_cases)
    case skip
    then show ?thesis using Cons.IH by blast
  next
    case (fail err w)
    then show ?thesis by simp
  next
    case (read d w)
    from Cons.IH [OF read(3)] show ?thesis by (simp add: assign_receipt_def)
  qed
qed

lemma load_photos_fields:
  "load_photos env rs s = (res, s') \<Longrightarrow>
     expense_id (heap s' r) = expense_id (heap s r)
   \<and> name (receipt (heap s' r)) = name (receipt (heap s r))
   \<and> filePath (receipt (heap s' r)) = filePath (receipt (heap s r))
   \<and> tempPath (receipt (heap s' r)) = tempPath (receipt (heap s r))"
proof (induction rs arbitrary: s)
  case Nil
  then show ?case by (simp add: resolve_def)
next
  case (Cons x rest)
  from Cons.prems show ?case
  proof (cases rule: load_photos_Cons_cases)
    case skip
    then show ?thesis using Cons.IH by blast
  next
    case (fail err w)
    then show ?thesis by simp
  next
    case (read d w)
    from Cons.IH [OF read(3)] show ?thesis by (simp add: assign_receipt_def)
  qed
qed

lemma load_photos_trace:
  "load_photos env rs s = (res, s') \<Longrightarrow> \<exists>new. trace s' = trace s @ new \<and> list_all is_read new"
proof (induction rs arbitrary: s)
  case Nil
  then show ?case by (simp add: resolve_def)
next
  case (Cons x rest)
  from Cons.prems show ?case
  proof (cases rule: load_photos_Cons_cases)
    case skip
    then show ?thesis using Cons.IH by blast
  next
    case (fail err w)
    then show ?thesis by simp
  next
    case (read d w)
    from Cons.IH [OF read(3)] obtain new where
      "trace s' = (trace s @ [ReadFile (filePath (receipt (heap s x))) (Some Data) (Inr d)]) @ new"
      "list_all is_read new"
      by (auto simp: assign_receipt_def)
    then have "trace s' = trace s @ (ReadFile (filePath (receipt (heap s x))) (Some Data) (Inr d) # new)
        \<and> list_all is_read (ReadFile (filePath (receipt (heap s x))) (Some Data) (Inr d) # new)"
      by simp
    then show ?thesis by blast
  qed
qed

lemma load_photos_untouched:
  "load_photos env rs s = (res, s') \<Longrightarrow>
     r \<notin> set rs \<or> \<not> truthy (filePath (receipt (heap s r))) \<Longrightarrow> heap s' r = heap s r"
proof (induction rs arbitrary: s)
  case Nil
  then show ?case by (simp add: resolve_def)
next
  case (Cons x rest)
  from Cons.prems(1) show ?case
  proof (cases rule: load_photos_Cons_cases)
    case skip
    then show ?thesis using Cons.IH Cons.prems(2) by auto
  next
    case (fail err w)
    then show ?thesis by simp
  next
    case (read d w)
    let ?s1 = "assign_receipt x (\<lambda>r. r\<lparr>webviewPath := Str (''data:image/jpeg;base64,'' @ d)\<rparr>)
            (s\<lparr>world := w,
               trace := trace s @
                 [ReadFile (filePath (receipt (heap s x))) (Some Data) (Inr d)]\<rparr>)"
    have ne: "r \<noteq> x" using Cons.prems(2) read(1) by auto
    then have same: "heap ?s1 r = heap s r" by (simp add: assign_receipt_def)
    have "r \<notin> set rest \<or> \<not> truthy (filePath (receipt (heap ?s1 r)))"
      using Cons.prems(2) same by auto
    from Cons.IH [OF read(3) this] show ?thesis using same by simp
  qed
qed

lemma load_photos_rewrites:
  "load_photos env rs s = (Inr u, s') \<Longrightarrow> r \<in> set rs \<Longrightarrow>
   truthy (filePath (receipt (heap s r))) \<Longrightarrow>
   \<exists>d w w'. readFile env (filePath (receipt (heap s r))) (Some Data) w = (Inr d, w')
      \<and> ReadFile (filePath (receipt (heap s r))) (Some Data) (Inr d)
          \<in> set (drop (length (trace s)) (trace s'))
      \<and> webviewPath (receipt (heap s' r)) = Str (''data:image/jpeg;base64,'' @ d)"
proof (induction rs arbitrary: s)
  case Nil
  then show ?case by simp
next
  case (Cons x rest)
  from Cons.prems(1) show ?case
  proof (cases rule: load_photos_Cons_cases)
    case skip
    then have "r \<in> set rest" using Cons.prems by auto
    from Cons.IH [OF skip(2) this Cons.prems(3)] show ?thesis .
  next
    case (fail err w)
    then show ?thesis by simp
  next
    case (read d w)
    let ?ev = "ReadFile (filePath (receipt (heap s x))) (Some Data) (Inr d)"
    let ?s1 = "assign_receipt x (\<lambda>r. r\<lparr>webviewPath := Str (''data:image/jpeg;base64,'' @ d)\<rparr>)
            (s\<lparr>world := w, trace := trace s @ [?ev]\<rparr>)"
    from load_photos_trace [OF read(3)] obtain new where
      tr: "trace s' = trace s @ ?ev # new"
      by (auto simp: assign_receipt_def)
    have fp: "filePath (receipt (heap ?s1 r)) = filePath (receipt (heap s r))"
      by (simp add: assign_receipt_def)
    show ?thesis
    proof (cases "r \<in> set rest")
      case True
      have "truthy (filePath (receipt (heap ?s1 r)))"
        using Cons.prems(3) fp by simp
      from Cons.IH [OF read(3) True this] obtain d' w1 w2 where
        c: "readFile env (filePath (receipt (heap s r))) (Some Data) w1 = (Inr d', w2)" and
        m: "ReadFile (filePath (receipt (heap s r))) (Some Data) (Inr d')
              \<in> set (drop (length (trace ?s1)) (trace s'))" and
        v: "webviewPath (receipt (heap s' r)) = Str (''data:image/jpeg;base64,'' @ d')"
        unfolding fp by blast
      have "set (drop (length (trace ?s1)) (trace s')) \<subseteq> set (drop (length (trace s)) (trace s'))"
        by (auto simp: tr assign_receipt_def)
      then show ?thesis using c m v by blast
    next
      case False
      then have rx: "r = x" using Cons.prems(2) by simp
      have "heap s' r = heap ?s1 r"
        using load_photos_untouched [OF read(3)] False by blast
      then have v: "webviewPath (receipt (heap s' r)) = Str (''data:image/jpeg;base64,'' @ d)"
        using rx by (simp add: assign_receipt_def)
      have "?ev \<in> set (drop (length (trace s)) (trace s'))"
        by (simp add: tr)
      then show ?thesis using v rx read(2) by blast
    qed
  qed
qed

lemma loadSaved_Inr_raw:
  assumes "loadSaved env s = (Inr out, s')"
  shows "\<exists>w0 w1 loaded. storage_init env (world s) = (Inr (), w0)
          \<and> readExpenses env w0 = (Inr loaded, w1)
          \<and> out = expenses s'
          \<and> (if getPlatform env = ''web''
              then load_photos env loaded
                     (s\<lparr>world := w1,
                        trace := trace s @ [StorageInit (Inr ()), ReadExpenses (Inr loaded)],
                        expenses := loaded\<rparr>)
                   = (Inr (), s')
              else s' = s\<lparr>world := w1,
                        trace := trace s @ [StorageInit (Inr ()), ReadExpenses (Inr loaded)],
                        expenses := loaded\<rparr>)"
  using assms
  by (auto simp: loadSaved_def await_def resolve_def get_def modify_def perform_eq
           split: prod.splits sum.splits if_splits)

lemma loadSaved_Inr:
  assumes "loadSaved env s = (Inr out, s')"
  shows "\<exists>w0 w1. storage_init env (world s) = (Inr (), w0)
          \<and> readExpenses env w0 = (Inr out, w1)
          \<and> (if getPlatform env = ''web''
              then load_photos env out
                     (s\<lparr>world := w1,
                        trace := trace s @ [StorageInit (Inr ()), ReadExpenses (Inr out)],
                        expenses := out\<rparr>)
                   = (Inr (), s')
              else s' = s\<lparr>world := w1,
                        trace := trace s @ [StorageInit (Inr ()), ReadExpenses (Inr out)],
                        expenses := out\<rparr>)"
proof -
  from loadSaved_Inr_raw [OF assms] obtain w0 w1 loaded where
    i: "storage_init env (world s) = (Inr (), w0)" and
    r: "readExpenses env w0 = (Inr loaded, w1)" and
    o: "out = expenses s'" and
    k: "if getPlatform env = ''web''
        then load_photos env loaded
               (s\<lparr>world := w1,
                  trace := trace s @ [StorageInit (Inr ()), ReadExpenses (Inr loaded)],
                  expenses := loaded\<rparr>)
             = (Inr (), s')
        else s' = s\<lparr>world := w1,
                  trace := trace s @ [StorageInit (Inr ()), ReadExpenses (Inr loaded)],
                  expenses := loaded\<rparr>"
    by blast
  have "expenses s' = loaded"
  proof (cases "getPlatform env = ''web''")
    case True
    with k load_photos_expenses show ?thesis by fastforce
  next
    case False
    with k show ?thesis by simp
  qed
  with o have "loaded = out" by simp
  with i r k show ?thesis by blast
qed

lemma loadSaved_fields:
  assumes "loadSaved env s = (res, s')"
  shows "filePath (receipt (heap s' r)) = filePath (receipt (heap s r))
       \<and> tempPath (receipt (heap s' r)) = tempPath (receipt (heap s r))"
  using assms
  by (auto simp: loadSaved_def await_def resolve_def get_def modify_def perform_eq
           split: prod.splits sum.splits if_splits dest: load_photos_fields [where r = r])

subsection \<open>Loading\<close>

text \<open>
  C2.  When \<open>loadSaved\<close> resolves, it returns the array of the service, which is the
  list the store returned from \<open>readExpenses\<close>.  On the platform \<open>web\<close>, for every
  record of that list with a persisted receipt path (\<open>filePath\<close>), the service has read
  that path in the data directory, and the display reference of the record is
  \<open>data:image/jpeg;base64,\<close> followed by the data of such a read; every other object is
  unchanged.  On any other platform no object is changed.
\<close>

theorem loadSaved_display_references:
  assumes "loadSaved env s = (Inr out, s')"
  shows "out = expenses s'
       \<and> (\<exists>w0 w1. storage_init env (world s) = (Inr (), w0)
                 \<and> readExpenses env w0 = (Inr out, w1))
       \<and> (getPlatform env = ''web'' \<longrightarrow>
            (\<forall>r \<in> set out. truthy (filePath (receipt (heap s r))) \<longrightarrow>
               (\<exists>d w w'.
                   readFile env (filePath (receipt (heap s r))) (Some Data) w = (Inr d, w')
                 \<and> ReadFile (filePath (receipt (heap s r))) (Some Data) (Inr d)
                     \<in> set (drop (length (trace s)) (trace s'))
                 \<and> webviewPath (receipt (heap s' r)) = Str (''data:image/jpeg;base64,'' @ d)))
          \<and> (\<forall>r. r \<notin> set out \<or> \<not> truthy (filePath (receipt (heap s r))) \<longrightarrow>
                 heap s' r = heap s r))
       \<and> (getPlatform env \<noteq> ''web'' \<longrightarrow> heap s' = heap s)"
proof -
  from loadSaved_Inr [OF assms] obtain w0 w1 where
    i: "storage_init env (world s) = (Inr (), w0)" and
    r: "readExpenses env w0 = (Inr out, w1)" and
    k: "if getPlatform env = ''web''
        then load_photos env out
               (s\<lparr>world := w1,
                  trace := trace s @ [StorageInit (Inr ()), ReadExpenses (Inr out)],
                  expenses := out\<rparr>)
             = (Inr (), s')
        else s' = s\<lparr>world := w1,
                  trace := trace s @ [StorageInit (Inr ()), ReadExpenses (Inr out)],
                  expenses := out\<rparr>"
    by blast
  let ?s1 = "s\<lparr>world := w1,
               trace := trace s @ [StorageInit (Inr ()), ReadExpenses (Inr out)],
               expenses := out\<rparr>"
  have x: "out = expenses s'"
    using k load_photos_expenses [of env out ?s1 "Inr ()" s'] by (auto split: if_splits)
  have web: "getPlatform env = ''web'' \<longrightarrow>
            (\<forall>r \<in> set out. truthy (filePath (receipt (heap s r))) \<longrightarrow>
               (\<exists>d w w'.
                   readFile env (filePath (receipt (heap s r))) (Some Data) w = (Inr d, w')
                 \<and> ReadFile (filePath (receipt (heap s r))) (Some Data) (Inr d)
                     \<in> set (drop (length (trace s)) (trace s'))
                 \<and> webviewPath (receipt (heap s' r)) = Str (''data:image/jpeg;base64,'' @ d)))
          \<and> (\<forall>r. r \<notin> set out \<or> \<not> truthy (filePath (receipt (heap s r))) \<longrightarrow>
                 heap s' r = heap s r)"
  proof
    assume "getPlatform env = ''web''"
    with k have l: "load_photos env out ?s1 = (Inr (), s')" by simp
    from load_photos_trace [OF l] obtain new where
      tr: "trace s' = trace s @ [StorageInit (Inr ()), ReadExpenses (Inr out)] @ new"
      by auto
    have sub: "set (drop (length (trace ?s1)) (trace s')) \<subseteq> set (drop (length (trace s)) (trace s'))"
      by (auto simp: tr)
    have a: "\<forall>r \<in> set out. truthy (filePath (receipt (heap s r))) \<longrightarrow>
               (\<exists>d w w'.
                   readFile env (filePath (receipt (heap s r))) (Some Data) w = (Inr d, w')
                 \<and> ReadFile (filePath (receipt (heap s r))) (Some Data) (Inr d)
                     \<in> set (drop (length (trace s)) (trace s'))
                 \<and> webviewPath (receipt (heap s' r)) = Str (''data:image/jpeg;base64,'' @ d))"
    proof (intro ballI impI)
      fix r assume m: "r \<in> set out" and t: "truthy (filePath (receipt (heap s r)))"
      from t have "truthy (filePath (receipt (heap ?s1 r)))" by simp
      from load_photos_rewrites [OF l m this] obtain d w w' where
        "readFile env (filePath (receipt (heap s r))) (Some Data) w = (Inr d, w')"
        "ReadFile (filePath (receipt (heap s r))) (Some Data) (Inr d)
           \<in> set (drop (length (trace ?s1)) (trace s'))"
        "webviewPath (receipt (heap s' r)) = Str (''data:image/jpeg;base64,'' @ d)"
        by auto
      then show "\<exists>d w w'.
                   readFile env (filePath (receipt (heap s r))) (Some Data) w = (Inr d, w')
                 \<and> ReadFile (filePath (receipt (heap s r))) (Some Data) (Inr d)
                     \<in> set (drop (length (trace s)) (trace s'))
                 \<and> webviewPath (receipt (heap s' r)) = Str (''data:image/jpeg;base64,'' @ d)"
        using sub by blast
    qed
    have b: "\<forall>r. r \<notin> set out \<or> \<not> truthy (filePath (receipt (heap s r))) \<longrightarrow>
                 heap s' r = heap s r"
    proof (intro allI impI)
      fix r assume "r \<notin> set out \<or> \<not> truthy (filePath (receipt (heap s r)))"
      then have "r \<notin> set out \<or> \<not> truthy (filePath (receipt (heap ?s1 r)))" by simp
      from load_photos_untouched [OF l this] show "heap s' r = heap s r" by simp
    qed
    show "(\<forall>r \<in> set out. truthy (filePath (receipt (heap s r))) \<longrightarrow>
               (\<exists>d w w'.
                   readFile env (filePath (receipt (heap s r))) (Some Data) w = (Inr d, w')
                 \<and> ReadFile (filePath (receipt (heap s r))) (Some Data) (Inr d)
                     \<in> set (drop (length (trace s)) (trace s'))
                 \<and> webviewPath (receipt (heap s' r)) = Str (''data:image/jpeg;base64,'' @ d)))
          \<and> (\<forall>r. r \<notin> set out \<or> \<not> truthy (filePath (receipt (heap s r))) \<longrightarrow>
                 heap s' r = heap s r)"
      using a b by blast
  qed
  have other: "getPlatform env \<noteq> ''web'' \<longrightarrow> heap s' = heap s"
    using k by auto
  show ?thesis using x i r web other by blast
qed

theorem loadSaved_display_references_witness:
  "getPlatform (example_env False) = ''web''
   \<and> fst (loadSaved (example_env False) example_state) = Inr [0, 1]
   \<and> filePath (receipt (heap example_state 0)) = Str ''1690000000000.jpeg''
   \<and> webviewPath (receipt (heap (snd (loadSaved (example_env False) example_state)) 0))
       = Str ''data:image/jpeg;base64,aGVsbG8=''
   \<and> heap (snd (loadSaved (example_env False) example_state)) 1 = heap example_state 1
   \<and> getPlatform (example_env True) = ''ios''
   \<and> fst (loadSaved (example_env True) example_state) = Inr [0, 1]
   \<and> heap (snd (loadSaved (example_env True) example_state)) = heap example_state"
proof -
  have pw: "getPlatform (example_env False) = ''web''"
    by (simp add: example_env_def)
  have pn: "getPlatform (example_env True) = ''ios''"
    by (simp add: example_env_def)
  have rw: "fst (loadSaved (example_env False) example_state) = Inr [0, 1]"
    by (simp add: eval_defs load_photos.simps)
  have rn: "fst (loadSaved (example_env True) example_state) = Inr [0, 1]"
    by (simp add: eval_defs)
  have f0: "filePath (receipt (heap example_state 0)) = Str ''1690000000000.jpeg''"
    by (simp add: example_state_def example_heap_def)
  have f1: "\<not> truthy (filePath (receipt (heap example_state 1)))"
    by (simp add: example_state_def example_heap_def)
  have v0: "webviewPath (receipt (heap (snd (loadSaved (example_env False) example_state)) 0))
       = Str ''data:image/jpeg;base64,aGVsbG8=''"
    by (simp add: eval_defs load_photos.simps)
  note web = loadSaved_display_references [OF run_collapse [OF rw]]
  note nat = loadSaved_display_references [OF run_collapse [OF rn]]
  from web pw f1
  have u1: "heap (snd (loadSaved (example_env False) example_state)) 1 = heap example_state 1"
    by blast
  from nat pn
  have hn: "heap (snd (loadSaved (example_env True) example_state)) = heap example_state"
    by simp
  show ?thesis using pw pn rw rn f0 v0 u1 hn by simp
qed

subsection \<open>The receipt invariant\<close>

lemma input_no_write: "list_all is_input xs \<Longrightarrow> filter is_write xs = []"
  using input_filters by blast

lemma cu_rejected_step:
  assumes "createUpdateExpense env e s = (Inl err, s')"
  shows "(filePath (receipt (heap s' r)) = filePath (receipt (heap s r))
            \<and> tempPath (receipt (heap s' r)) = tempPath (receipt (heap s r)))
         \<or> (r = e \<and> truthy (tempPath (receipt (heap s e)))
            \<and> tempPath (receipt (heap s' r)) = Null
            \<and> (\<exists>d uri.
                  filter is_write (drop (length (trace s)) (trace s')) =
                    [WriteFile (Str (show_int (assigned_id env e s) @ ''.jpeg'')) d (Some Data)
                       (Inr uri)]
                \<and> filePath (receipt (heap s' r)) =
                    (if isNativePlatform env then Str uri
                     else Str (show_int (assigned_id env e s) @ ''.jpeg''))))"
  using assms
  by (cases "isNativePlatform env")
     (auto simp: cu_defs assigned_id_def input_no_write
           split: prod.splits sum.splits option.splits if_splits
           dest!: savePicture_Inr savePicture_Inl)

lemma cu_resolved_step:
  assumes "createUpdateExpense env e s = (Inr out, s')"
      and "truthy (tempPath (receipt (heap s e)))"
  shows "tempPath (receipt (heap s' e)) = Null
       \<and> (\<exists>d uri.
             filter is_write (drop (length (trace s)) (trace s')) =
               [WriteFile (Str (show_int (assigned_id env e s) @ ''.jpeg'')) d (Some Data)
                  (Inr uri)]
           \<and> filePath (receipt (heap s' e)) =
               (if isNativePlatform env then Str uri
                else Str (show_int (assigned_id env e s) @ ''.jpeg'')))"
proof -
  let ?n = "assigned_id env e s"
  let ?clock = "if expense_id (heap s e) = None \<or> expense_id (heap s e) = Some 0
                then [GetTime ?n] else []"
  let ?store = "(if expense_id (heap s e) = None then CreateExpense else UpdateExpense)
                  (heap s' e) (map (heap s') (expenses s')) (Inr ())"
  from cu_pending [OF assms] obtain reads d uri where
    t: "trace s' = trace s @ ?clock @ reads @
          [WriteFile (Str (show_int ?n @ ''.jpeg'')) d (Some Data) (Inr uri), ?store]" and
    i: "list_all is_input reads" and
    f: "filePath (receipt (heap s' e)) =
          (if isNativePlatform env then Str uri else Str (show_int ?n @ ''.jpeg''))" and
    n: "tempPath (receipt (heap s' e)) = Null"
    by blast
  have "filter is_write (drop (length (trace s)) (trace s')) =
      [WriteFile (Str (show_int ?n @ ''.jpeg'')) d (Some Data) (Inr uri)]"
    unfolding t using input_no_write [OF i] by simp
  then show ?thesis using f n by blast
qed

lemma cu_same_step:
  assumes "createUpdateExpense env e s = (res, s')"
  shows "(filePath (receipt (heap s' r)) = filePath (receipt (heap s r))
            \<and> tempPath (receipt (heap s' r)) = tempPath (receipt (heap s r)))
         \<or> (r = e \<and> truthy (tempPath (receipt (heap s e)))
            \<and> tempPath (receipt (heap s' r)) = Null
            \<and> (\<exists>d uri.
                  filter is_write (drop (length (trace s)) (trace s')) =
                    [WriteFile (Str (show_int (assigned_id env e s) @ ''.jpeg'')) d (Some Data)
                       (Inr uri)]
                \<and> filePath (receipt (heap s' r)) =
                    (if isNativePlatform env then Str uri
                     else Str (show_int (assigned_id env e s) @ ''.jpeg''))))"
proof (cases res)
  case (Inl err)
  with assms show ?thesis using cu_rejected_step by blast
next
  case (Inr out)
  with assms have run: "createUpdateExpense env e s = (Inr out, s')" by simp
  show ?thesis
  proof (cases "r = e")
    case False
    from cu_others [OF run False] show ?thesis by simp
  next
    case True
    show ?thesis
    proof (cases "truthy (tempPath (receipt (heap s e)))")
      case False
      from cu_no_pending [OF run False] have "receipt (heap s' e) = receipt (heap s e)" by blast
      then show ?thesis using True by simp
    next
      case pending: True
      from cu_resolved_step [OF run pending] show ?thesis using True pending by blast
    qed
  qed
qed

lemma captureExpenseReceipt_heap:
  "heap (snd (captureExpenseReceipt env s)) = heap s"
  by (auto simp: captureExpenseReceipt_def Let_def await_def resolve_def perform_def
           split: prod.splits sum.splits)

lemma removeExpense_heap:
  "heap (snd (removeExpense env e p s)) = heap s"
  using removeExpense_run [of env e p s "fst (removeExpense env e p s)" "snd (removeExpense env e p s)"]
  by simp

text \<open>
  C8.  If no receipt of the heap has both its temporary capture reference and its
  persisted reference set, the same holds after \<open>loadSaved\<close>, after
  \<open>createUpdateExpense\<close>, after \<open>removeExpense\<close> and after \<open>captureExpenseReceipt\<close>,
  whether the operation resolves or rejects (\<open>getExpense\<close> changes nothing: it is a
  function of the state).  \<open>createUpdateExpense\<close> sets the persisted reference and
  nulls the temporary reference in the same step: in every outcome each receipt has either
  both references as before, or it is the receipt of the record with a pending capture,
  its temporary reference is \<open>null\<close> and its persisted reference is the one of the
  picture saved in this run (the URI returned by the one write of the run on a native
  platform, the file name \<open><expenseId>.jpeg\<close> of that write otherwise).  When the
  operation resolves on a record with a pending capture, both have happened; and whenever
  it resolves, the temporary reference of its record is not set, so the record satisfies
  the invariant whatever it was before.
\<close>

theorem operations_preserve_receipt_invariant:
  "(state_inv s \<longrightarrow>
       state_inv (snd (loadSaved env s))
     \<and> state_inv (snd (createUpdateExpense env e s))
     \<and> state_inv (snd (removeExpense env e p s))
     \<and> state_inv (snd (captureExpenseReceipt env s)))
   \<and> (\<forall>r. (filePath (receipt (heap (snd (createUpdateExpense env e s)) r))
               = filePath (receipt (heap s r))
             \<and> tempPath (receipt (heap (snd (createUpdateExpense env e s)) r))
               = tempPath (receipt (heap s r)))
           \<or> (r = e \<and> truthy (tempPath (receipt (heap s e)))
              \<and> tempPath (receipt (heap (snd (createUpdateExpense env e s)) r)) = Null
              \<and> (\<exists>d uri.
                    filter is_write
                      (drop (length (trace s)) (trace (snd (createUpdateExpense env e s)))) =
                      [WriteFile (Str (show_int (assigned_id env e s) @ ''.jpeg'')) d (Some Data)
                         (Inr uri)]
                  \<and> filePath (receipt (heap (snd (createUpdateExpense env e s)) r)) =
                      (if isNativePlatform env then Str uri
                       else Str (show_int (assigned_id env e s) @ ''.jpeg'')))))
   \<and> (\<forall>out s'. createUpdateExpense env e s = (Inr out, s') \<longrightarrow>
         \<not> truthy (tempPath (receipt (heap s' e))) \<and> receipt_inv (receipt (heap s' e))
       \<and> (truthy (tempPath (receipt (heap s e))) \<longrightarrow>
             tempPath (receipt (heap s' e)) = Null
           \<and> (\<exists>d uri.
                 filter is_write (drop (length (trace s)) (trace s')) =
                   [WriteFile (Str (show_int (assigned_id env e s) @ ''.jpeg'')) d (Some Data)
                      (Inr uri)]
               \<and> filePath (receipt (heap s' e)) =
                   (if isNativePlatform env then Str uri
                    else Str (show_int (assigned_id env e s) @ ''.jpeg''))))
       \<and> (\<not> truthy (tempPath (receipt (heap s e))) \<longrightarrow>
             receipt (heap s' e) = receipt (heap s e)))"
proof -
  let ?s' = "snd (createUpdateExpense env e s)"
  have step: "\<And>r. (filePath (receipt (heap ?s' r)) = filePath (receipt (heap s r))
             \<and> tempPath (receipt (heap ?s' r)) = tempPath (receipt (heap s r)))
           \<or> (r = e \<and> truthy (tempPath (receipt (heap s e)))
              \<and> tempPath (receipt (heap ?s' r)) = Null
              \<and> (\<exists>d uri.
                    filter is_write (drop (length (trace s)) (trace ?s')) =
                      [WriteFile (Str (show_int (assigned_id env e s) @ ''.jpeg'')) d (Some Data)
                         (Inr uri)]
                  \<and> filePath (receipt (heap ?s' r)) =
                      (if isNativePlatform env then Str uri
                       else Str (show_int (assigned_id env e s) @ ''.jpeg''))))"
    by (rule cu_same_step [OF prod.collapse [symmetric]])
  have load: "\<And>r. filePath (receipt (heap (snd (loadSaved env s)) r)) = filePath (receipt (heap s r))
           \<and> tempPath (receipt (heap (snd (loadSaved env s)) r)) = tempPath (receipt (heap s r))"
    by (rule loadSaved_fields [OF prod.collapse [symmetric]])
  have pres: "state_inv s \<longrightarrow>
       state_inv (snd (loadSaved env s))
     \<and> state_inv ?s'
     \<and> state_inv (snd (removeExpense env e p s))
     \<and> state_inv (snd (captureExpenseReceipt env s))"
  proof
    assume inv: "state_inv s"
    have a: "state_inv (snd (loadSaved env s))"
      using inv load by (simp add: state_inv_def receipt_inv_def)
    have b: "state_inv ?s'"
      unfolding state_inv_def receipt_inv_def
    proof
      fix r
      from inv have "\<not> (truthy (tempPath (receipt (heap s r))) \<and> truthy (filePath (receipt (heap s r))))"
        by (simp add: state_inv_def receipt_inv_def)
      with step [of r]
      show "\<not> (truthy (tempPath (receipt (heap ?s' r))) \<and> truthy (filePath (receipt (heap ?s' r))))"
        by auto
    qed
    have c: "state_inv (snd (removeExpense env e p s))"
      using inv by (simp add: state_inv_def removeExpense_heap)
    have d: "state_inv (snd (captureExpenseReceipt env s))"
      using inv by (simp add: state_inv_def captureExpenseReceipt_heap)
    show "state_inv (snd (loadSaved env s))
     \<and> state_inv ?s'
     \<and> state_inv (snd (removeExpense env e p s))
     \<and> state_inv (snd (captureExpenseReceipt env s))"
      using a b c d by simp
  qed
  have fin: "\<forall>out s'. createUpdateExpense env e s = (Inr out, s') \<longrightarrow>
         \<not> truthy (tempPath (receipt (heap s' e))) \<and> receipt_inv (receipt (heap s' e))
       \<and> (truthy (tempPath (receipt (heap s e))) \<longrightarrow>
             tempPath (receipt (heap s' e)) = Null
           \<and> (\<exists>d uri.
                 filter is_write (drop (length (trace s)) (trace s')) =
                   [WriteFile (Str (show_int (assigned_id env e s) @ ''.jpeg'')) d (Some Data)
                      (Inr uri)]
               \<and> filePath (receipt (heap s' e)) =
                   (if isNativePlatform env then Str uri
                    else Str (show_int (assigned_id env e s) @ ''.jpeg''))))
       \<and> (\<not> truthy (tempPath (receipt (heap s e))) \<longrightarrow>
             receipt (heap s' e) = receipt (heap s e))"
  proof (intro allI impI)
    fix out s' assume run: "createUpdateExpense env e s = (Inr out, s')"
    have yes: "truthy (tempPath (receipt (heap s e))) \<longrightarrow>
             tempPath (receipt (heap s' e)) = Null
           \<and> (\<exists>d uri.
                 filter is_write (drop (length (trace s)) (trace s')) =
                   [WriteFile (Str (show_int (assigned_id env e s) @ ''.jpeg'')) d (Some Data)
                      (Inr uri)]
               \<and> filePath (receipt (heap s' e)) =
                   (if isNativePlatform env then Str uri
                    else Str (show_int (assigned_id env e s) @ ''.jpeg'')))"
      using cu_resolved_step [OF run] by blast
    have no: "\<not> truthy (tempPath (receipt (heap s e))) \<longrightarrow>
             receipt (heap s' e) = receipt (heap s e)"
      using cu_no_pending [OF run] by blast
    have off: "\<not> truthy (tempPath (receipt (heap s' e)))"
    proof (cases "truthy (tempPath (receipt (heap s e)))")
      case True
      with yes have "tempPath (receipt (heap s' e)) = Null" by blast
      then show ?thesis by simp
    next
      case False
      with no show ?thesis by simp
    qed
    then have "receipt_inv (receipt (heap s' e))"
      by (simp add: receipt_inv_def)
    with off yes no
    show "\<not> truthy (tempPath (receipt (heap s' e))) \<and> receipt_inv (receipt (heap s' e))
       \<and> (truthy (tempPath (receipt (heap s e))) \<longrightarrow>
             tempPath (receipt (heap s' e)) = Null
           \<and> (\<exists>d uri.
                 filter is_write (drop (length (trace s)) (trace s')) =
                   [WriteFile (Str (show_int (assigned_id env e s) @ ''.jpeg'')) d (Some Data)
                      (Inr uri)]
               \<and> filePath (receipt (heap s' e)) =
                   (if isNativePlatform env then Str uri
                    else Str (show_int (assigned_id env e s) @ ''.jpeg''))))
       \<and> (\<not> truthy (tempPath (receipt (heap s e))) \<longrightarrow>
             receipt (heap s' e) = receipt (heap s e))"
      by blast
  qed
  show ?thesis using pres step fin by blast
qed

theorem operations_preserve_receipt_invariant_witness:
  "state_inv example_state
   \<and> state_inv (snd (loadSaved (example_env False) example_state))
   \<and> state_inv (snd (createUpdateExpense (example_env False) 2 example_state))
   \<and> state_inv (snd (removeExpense (example_env False) 0 0 example_state))
   \<and> state_inv (snd (captureExpenseReceipt (example_env False) example_state))
   \<and> fst (createUpdateExpense (example_env False) 2 example_state) = Inr 2
   \<and> truthy (tempPath (receipt (heap example_state 2)))
   \<and> filePath (receipt (heap example_state 2)) = Undefined
   \<and> tempPath (receipt
          (heap (snd (createUpdateExpense (example_env False) 2 example_state)) 2)) = Null
   \<and> filePath (receipt
          (heap (snd (createUpdateExpense (example_env False) 2 example_state)) 2))
       = Str ''1700000000000.jpeg''"
proof -
  have inv: "state_inv example_state"
    by (simp add: state_inv_def receipt_inv_def example_state_def example_heap_def)
  have r: "fst (createUpdateExpense (example_env False) 2 example_state) = Inr 2"
    by (simp add: eval_defs)
  have h: "truthy (tempPath (receipt (heap example_state 2)))"
    by (simp add: example_state_def example_heap_def)
  have u: "filePath (receipt (heap example_state 2)) = Undefined"
    by (simp add: example_state_def example_heap_def)
  have a: "assigned_id (example_env False) 2 example_state = 1700000000000"
    by (simp add: assigned_id_def example_env_def example_state_def example_heap_def)
  have w: "\<not> isNativePlatform (example_env False)"
    by (simp add: example_env_def)
  note t = operations_preserve_receipt_invariant [of example_state "example_env False" 2 0]
  from t inv have p: "state_inv (snd (loadSaved (example_env False) example_state))
     \<and> state_inv (snd (createUpdateExpense (example_env False) 2 example_state))
     \<and> state_inv (snd (removeExpense (example_env False) 2 0 example_state))
     \<and> state_inv (snd (captureExpenseReceipt (example_env False) example_state))"
    by blast
  from operations_preserve_receipt_invariant [of example_state "example_env False" 0 0] inv
  have q: "state_inv (snd (removeExpense (example_env False) 0 0 example_state))"
    by blast
  from t run_collapse [OF r] h
  have n: "tempPath (receipt
          (heap (snd (createUpdateExpense (example_env False) 2 example_state)) 2)) = Null"
    by blast
  from t run_collapse [OF r] h
  have "\<exists>uri. filePath (receipt
          (heap (snd (createUpdateExpense (example_env False) 2 example_state)) 2))
       = (if isNativePlatform (example_env False) then Str uri
          else Str (show_int (assigned_id (example_env False) 2 example_state) @ ''.jpeg''))"
    by blast
  then have f: "filePath (receipt
          (heap (snd (createUpdateExpense (example_env False) 2 example_state)) 2))
       = Str ''1700000000000.jpeg''"
    using w by (simp add: a show_int_example)
  show ?thesis using inv r h u p q n f by simp
qed

end
